theory Spec2Isabelle
  imports Main "HOL-Library.Word"
begin

section \<open>Strings\<close>

text \<open>
  A JavaScript string is a sequence of 16-bit code units. Every string of the script
  (arguments, titles, file text, console lines) is modelled as such a sequence; the
  ASCII literals of the source are written \<open>js ''...''\<close>, the glyphs of the source
  by their code units.
\<close>

type_synonym jschar = "16 word"
type_synonym jsstring = "jschar list"

definition js :: "string \<Rightarrow> jsstring" where
  "js s = map (\<lambda>c. of_nat (of_char c)) s"

text \<open>\<open>String.prototype.startsWith\<close>, \<open>Array.prototype.join\<close>,
  \<open>String.prototype.split\<close> on a one-unit separator, \<open>Array.prototype.includes\<close>
  and \<open>Array.prototype.find\<close>.\<close>

definition startsWith :: "jsstring \<Rightarrow> jsstring \<Rightarrow> bool" where
  "startsWith s p = (take (length p) s = p)"

fun join :: "jsstring list \<Rightarrow> jsstring \<Rightarrow> jsstring" where
  "join [] sep = []"
| "join [x] sep = x"
| "join (x # y # xs) sep = x @ sep @ join (y # xs) sep"

fun split :: "jsstring \<Rightarrow> jschar \<Rightarrow> jsstring list" where
  "split [] sep = [[]]"
| "split (c # cs) sep =
     (if c = sep then [] # split cs sep
      else (case split cs sep of [] \<Rightarrow> [[c]] | p # ps \<Rightarrow> (c # p) # ps))"

definition array_includes :: "'a list \<Rightarrow> 'a \<Rightarrow> bool" where
  "array_includes xs x = (x \<in> set xs)"

text \<open>The decimal digits of a natural number, as the template literals of the script
  print an array index or a length.\<close>

definition digit :: "nat \<Rightarrow> jschar" where
  "digit d = of_nat (48 + d)"

fun decimal :: "nat \<Rightarrow> jsstring" where
  "decimal n = (if n < 10 then [digit n] else decimal (n div 10) @ [digit (n mod 10)])"

section \<open>parseInt\<close>

text \<open>
  \<open>parseInt(string)\<close> with no radix: leading white space and line terminators are
  dropped, an optional sign is read, a \<open>0x\<close> or \<open>0X\<close> prefix selects radix 16, and the
  longest prefix of digits of the radix is the number; with no digit the result is NaN
  (\<open>None\<close>). Whatever follows the digits is ignored. The result is exact here; the
  script only compares it with an array length, where a double and the exact integer
  agree.
\<close>

definition StrWhiteSpaceChar :: "jschar \<Rightarrow> bool" where
  "StrWhiteSpaceChar c =
     (c \<in> set [0x0009, 0x000A, 0x000B, 0x000C, 0x000D, 0x0020, 0x00A0, 0x1680,
                0x2028, 0x2029, 0x202F, 0x205F, 0x3000, 0xFEFF]
      \<or> (0x2000 \<le> c \<and> c \<le> 0x200A))"

definition digit_value :: "nat \<Rightarrow> jschar \<Rightarrow> nat option" where
  "digit_value radix c =
     (let v = (if 0x30 \<le> c \<and> c \<le> 0x39 then Some (unat c - 0x30)
               else if 0x61 \<le> c \<and> c \<le> 0x7A then Some (unat c - 0x61 + 10)
               else if 0x41 \<le> c \<and> c \<le> 0x5A then Some (unat c - 0x41 + 10)
               else None)
      in case v of None \<Rightarrow> None | Some d \<Rightarrow> if d < radix then Some d else None)"

definition radix_number :: "nat \<Rightarrow> jsstring \<Rightarrow> int option" where
  "radix_number radix s =
     (let z = takeWhile (\<lambda>c. digit_value radix c \<noteq> None) s
      in if z = [] then None
         else Some (int (foldl (\<lambda>acc c. acc * radix + the (digit_value radix c)) 0 z)))"

definition parseInt :: "jsstring \<Rightarrow> int option" where
  "parseInt string =
     (let s = dropWhile StrWhiteSpaceChar string;
          negative = (s \<noteq> [] \<and> hd s = 0x2D);
          s = (if s \<noteq> [] \<and> (hd s = 0x2B \<or> hd s = 0x2D) then tl s else s);
          hex = (startsWith s (js ''0x'') \<or> startsWith s (js ''0X''));
          n = (if hex then radix_number 16 (drop 2 s) else radix_number 10 s)
      in map_option (\<lambda>m. if negative then - m else m) n)"

section \<open>JSON\<close>

text \<open>
  The values \<open>JSON.parse\<close> returns and \<open>JSON.stringify\<close> prints, after the JSON
  grammar and the serialisation rules of the language standard. A number is kept as
  its source text: no field of a task is a number, and nothing in the script computes
  with one. An object keeps its properties in the order of the text (an engine puts
  integer-like keys first; no key of a task is one).
\<close>

datatype json =
    JNull
  | JBool bool
  | JNum jsstring
  | JStr jsstring
  | JArr "json list"
  | JObj "(jsstring \<times> json) list"

subsection \<open>JSON.stringify(value, null, 2)\<close>

definition hex_digit :: "nat \<Rightarrow> jschar" where
  "hex_digit d = (if d < 10 then of_nat (0x30 + d) else of_nat (0x61 + (d - 10)))"

definition UnicodeEscape :: "jschar \<Rightarrow> jsstring" where
  "UnicodeEscape c =
     (let n = unat c
      in [0x5C, 0x75, hex_digit (n div 4096), hex_digit (n div 256 mod 16),
          hex_digit (n div 16 mod 16), hex_digit (n mod 16)])"

definition is_leading_surrogate :: "jschar \<Rightarrow> bool" where
  "is_leading_surrogate c = (0xD800 \<le> c \<and> c \<le> 0xDBFF)"

definition is_trailing_surrogate :: "jschar \<Rightarrow> bool" where
  "is_trailing_surrogate c = (0xDC00 \<le> c \<and> c \<le> 0xDFFF)"

text \<open>One code point that is a single code unit: the two-character escapes of the
  table, a four-digit Unicode escape for the other control characters and for a surrogate that
  stands alone, and the unit itself otherwise.\<close>

definition quote_unit :: "jschar \<Rightarrow> jsstring" where
  "quote_unit c =
     (if c = 0x08 then [0x5C, 0x62]
      else if c = 0x09 then [0x5C, 0x74]
      else if c = 0x0A then [0x5C, 0x6E]
      else if c = 0x0C then [0x5C, 0x66]
      else if c = 0x0D then [0x5C, 0x72]
      else if c = 0x22 then [0x5C, 0x22]
      else if c = 0x5C then [0x5C, 0x5C]
      else if c < 0x20 \<or> is_leading_surrogate c \<or> is_trailing_surrogate c
        then UnicodeEscape c
      else [c])"

fun quote_units :: "jsstring \<Rightarrow> jsstring" where
  "quote_units [] = []"
| "quote_units [c] = quote_unit c"
| "quote_units (c # d # cs) =
     (if is_leading_surrogate c \<and> is_trailing_surrogate d then c # d # quote_units cs
      else quote_unit c @ quote_units (d # cs))"

definition QuoteJSONString :: "jsstring \<Rightarrow> jsstring" where
  "QuoteJSONString s = 0x22 # quote_units s @ [0x22]"

text \<open>A line feed and the indentation of nesting depth \<open>n\<close> (the gap is two spaces).\<close>

definition newline :: "nat \<Rightarrow> jsstring" where
  "newline n = 0x0A # replicate (2 * n) 0x20"

fun stringify :: "nat \<Rightarrow> json \<Rightarrow> jsstring" where
  "stringify n JNull = js ''null''"
| "stringify n (JBool b) = (if b then js ''true'' else js ''false'')"
| "stringify n (JNum x) = x"
| "stringify n (JStr s) = QuoteJSONString s"
| "stringify n (JArr vs) =
     (if vs = [] then js ''[]''
      else js ''['' @ newline (Suc n)
           @ join (map (stringify (Suc n)) vs) (js '','' @ newline (Suc n))
           @ newline n @ js '']'')"
| "stringify n (JObj ms) =
     (if ms = [] then js ''{}''
      else js ''{'' @ newline (Suc n)
           @ join (map (\<lambda>m. QuoteJSONString (fst m) @ js '': '' @ stringify (Suc n) (snd m)) ms)
                  (js '','' @ newline (Suc n))
           @ newline n @ js ''}'')"

definition JSON_stringify :: "json \<Rightarrow> jsstring" where
  "JSON_stringify v = stringify 0 v"

subsection \<open>JSON.parse\<close>

text \<open>
  The parser is an automaton that reads the text one code unit at a time: a lexer
  state (between tokens, inside a string, an escape, a literal name or a number) and
  a parser state with the stack of the arrays and objects that are still open.
\<close>

datatype token =
    TLBrace | TRBrace | TLBrack | TRBrack | TColon | TComma
  | TString jsstring | TNumber jsstring | TTrue | TFalse | TNull

datatype frame =
    InArr "json list"
  | InObj "(jsstring \<times> json) list" jsstring

datatype pstate =
    PValue "frame list"
  | PArrStart "frame list"
  | PArrNext "json list" "frame list"
  | PObjStart "frame list"
  | PKey "(jsstring \<times> json) list" "frame list"
  | PColon "(jsstring \<times> json) list" jsstring "frame list"
  | PObjNext "(jsstring \<times> json) list" "frame list"
  | PDone json

text \<open>A property that is defined twice keeps its first place and takes the last
  value.\<close>

fun put :: "(jsstring \<times> json) list \<Rightarrow> jsstring \<Rightarrow> json \<Rightarrow> (jsstring \<times> json) list" where
  "put [] k v = [(k, v)]"
| "put (m # ms) k v = (if fst m = k then (k, v) # ms else m # put ms k v)"

fun complete_value :: "json \<Rightarrow> frame list \<Rightarrow> pstate" where
  "complete_value v [] = PDone v"
| "complete_value v (InArr vs # st) = PArrNext (vs @ [v]) st"
| "complete_value v (InObj ms k # st) = PObjNext (put ms k v) st"

fun start_value :: "token \<Rightarrow> frame list \<Rightarrow> pstate option" where
  "start_value TLBrack st = Some (PArrStart st)"
| "start_value TLBrace st = Some (PObjStart st)"
| "start_value (TString s) st = Some (complete_value (JStr s) st)"
| "start_value (TNumber x) st = Some (complete_value (JNum x) st)"
| "start_value TTrue st = Some (complete_value (JBool True) st)"
| "start_value TFalse st = Some (complete_value (JBool False) st)"
| "start_value TNull st = Some (complete_value JNull st)"
| "start_value _ st = None"

fun pstep :: "pstate \<Rightarrow> token \<Rightarrow> pstate option" where
  "pstep (PValue st) tok = start_value tok st"
| "pstep (PArrStart st) tok =
     (if tok = TRBrack then Some (complete_value (JArr []) st)
      else start_value tok (InArr [] # st))"
| "pstep (PArrNext vs st) tok =
     (if tok = TComma then Some (PValue (InArr vs # st))
      else if tok = TRBrack then Some (complete_value (JArr vs) st)
      else None)"
| "pstep (PObjStart st) tok =
     (case tok of TRBrace \<Rightarrow> Some (complete_value (JObj []) st)
      | TString k \<Rightarrow> Some (PColon [] k st)
      | _ \<Rightarrow> None)"
| "pstep (PKey ms st) tok = (case tok of TString k \<Rightarrow> Some (PColon ms k st) | _ \<Rightarrow> None)"
| "pstep (PColon ms k st) tok = (if tok = TColon then Some (PValue (InObj ms k # st)) else None)"
| "pstep (PObjNext ms st) tok =
     (if tok = TComma then Some (PKey ms st)
      else if tok = TRBrace then Some (complete_value (JObj ms) st)
      else None)"
| "pstep (PDone v) tok = None"

datatype numstate = NMinus | NZero | NInt | NDot | NFrac | NExp | NExpSign | NExpDigits

datatype lstate =
    LIdle
  | LString jsstring
  | LEscape jsstring
  | LUnicode jsstring "nat list"
  | LWord jsstring token
  | LNumber numstate jsstring

definition is_digit :: "jschar \<Rightarrow> bool" where
  "is_digit c = (0x30 \<le> c \<and> c \<le> 0x39)"

definition num_step :: "numstate \<Rightarrow> jschar \<Rightarrow> numstate option" where
  "num_step ns c =
     (case ns of
        NMinus \<Rightarrow> if c = 0x30 then Some NZero else if is_digit c then Some NInt else None
      | NZero \<Rightarrow> if c = 0x2E then Some NDot else if c = 0x65 \<or> c = 0x45 then Some NExp else None
      | NInt \<Rightarrow> if is_digit c then Some NInt else if c = 0x2E then Some NDot
                else if c = 0x65 \<or> c = 0x45 then Some NExp else None
      | NDot \<Rightarrow> if is_digit c then Some NFrac else None
      | NFrac \<Rightarrow> if is_digit c then Some NFrac
                 else if c = 0x65 \<or> c = 0x45 then Some NExp else None
      | NExp \<Rightarrow> if c = 0x2B \<or> c = 0x2D then Some NExpSign
                else if is_digit c then Some NExpDigits else None
      | NExpSign \<Rightarrow> if is_digit c then Some NExpDigits else None
      | NExpDigits \<Rightarrow> if is_digit c then Some NExpDigits else None)"

definition num_complete :: "numstate \<Rightarrow> bool" where
  "num_complete ns = (ns = NZero \<or> ns = NInt \<or> ns = NFrac \<or> ns = NExpDigits)"

definition is_json_space :: "jschar \<Rightarrow> bool" where
  "is_json_space c = (c = 0x20 \<or> c = 0x09 \<or> c = 0x0A \<or> c = 0x0D)"

definition emit :: "pstate \<Rightarrow> token \<Rightarrow> (lstate \<times> pstate) option" where
  "emit p tok = map_option (Pair LIdle) (pstep p tok)"

definition idle :: "pstate \<Rightarrow> jschar \<Rightarrow> (lstate \<times> pstate) option" where
  "idle p c =
     (if is_json_space c then Some (LIdle, p)
      else if c = 0x7B then emit p TLBrace
      else if c = 0x7D then emit p TRBrace
      else if c = 0x5B then emit p TLBrack
      else if c = 0x5D then emit p TRBrack
      else if c = 0x3A then emit p TColon
      else if c = 0x2C then emit p TComma
      else if c = 0x22 then Some (LString [], p)
      else if c = 0x74 then Some (LWord (js ''rue'') TTrue, p)
      else if c = 0x66 then Some (LWord (js ''alse'') TFalse, p)
      else if c = 0x6E then Some (LWord (js ''ull'') TNull, p)
      else if c = 0x2D then Some (LNumber NMinus [c], p)
      else if c = 0x30 then Some (LNumber NZero [c], p)
      else if is_digit c then Some (LNumber NInt [c], p)
      else None)"

definition unescape :: "jschar \<Rightarrow> jschar option" where
  "unescape c =
     (if c = 0x22 \<or> c = 0x5C \<or> c = 0x2F then Some c
      else if c = 0x62 then Some 0x08
      else if c = 0x66 then Some 0x0C
      else if c = 0x6E then Some 0x0A
      else if c = 0x72 then Some 0x0D
      else if c = 0x74 then Some 0x09
      else None)"

definition hex_value :: "nat list \<Rightarrow> nat" where
  "hex_value ds = foldl (\<lambda>acc d. acc * 16 + d) 0 ds"

fun feed :: "lstate \<Rightarrow> pstate \<Rightarrow> jschar \<Rightarrow> (lstate \<times> pstate) option" where
  "feed LIdle p c = idle p c"
| "feed (LString acc) p c =
     (if c = 0x22 then emit p (TString acc)
      else if c = 0x5C then Some (LEscape acc, p)
      else if c < 0x20 then None
      else Some (LString (acc @ [c]), p))"
| "feed (LEscape acc) p c =
     (if c = 0x75 then Some (LUnicode acc [], p)
      else (case unescape c of None \<Rightarrow> None | Some u \<Rightarrow> Some (LString (acc @ [u]), p)))"
| "feed (LUnicode acc ds) p c =
     (case digit_value 16 c of
        None \<Rightarrow> None
      | Some d \<Rightarrow>
          if length ds = 3 then Some (LString (acc @ [of_nat (hex_value (ds @ [d]))]), p)
          else Some (LUnicode acc (ds @ [d]), p))"
| "feed (LWord rest tok) p c =
     (case rest of
        [] \<Rightarrow> None
      | r # rs \<Rightarrow> if c \<noteq> r then None else if rs = [] then emit p tok else Some (LWord rs tok, p))"
| "feed (LNumber ns lexeme) p c =
     (case num_step ns c of
        Some ns' \<Rightarrow> Some (LNumber ns' (lexeme @ [c]), p)
      | None \<Rightarrow>
          if num_complete ns
          then (case pstep p (TNumber lexeme) of None \<Rightarrow> None | Some p' \<Rightarrow> idle p' c)
          else None)"

fun run :: "lstate \<times> pstate \<Rightarrow> jsstring \<Rightarrow> (lstate \<times> pstate) option" where
  "run st [] = Some st"
| "run st (c # cs) = (case feed (fst st) (snd st) c of None \<Rightarrow> None | Some st' \<Rightarrow> run st' cs)"

definition finish :: "lstate \<times> pstate \<Rightarrow> json option" where
  "finish st =
     (case fst st of
        LIdle \<Rightarrow> (case snd st of PDone v \<Rightarrow> Some v | _ \<Rightarrow> None)
      | LNumber ns lexeme \<Rightarrow>
          if num_complete ns
          then (case pstep (snd st) (TNumber lexeme) of Some (PDone v) \<Rightarrow> Some v | _ \<Rightarrow> None)
          else None
      | _ \<Rightarrow> None)"

definition JSON_parse :: "jsstring \<Rightarrow> json option" where
  "JSON_parse text = (case run (LIdle, PValue []) text of None \<Rightarrow> None | Some st \<Rightarrow> finish st)"

section \<open>Tasks\<close>

text \<open>
  A task as \<open>commands.add\<close> builds it: the object literal has the properties
  \<open>id\<close>, \<open>title\<close>, \<open>priority\<close>, \<open>completed\<close> and \<open>created\<close>, in that order;
  \<open>commands.complete\<close> adds \<open>completedAt\<close>. The script is dynamically typed and
  reads whatever JSON the file holds; the model is typed, and covers the files that
  hold an array of such objects (\<open>tasks_of_json\<close> is \<open>None\<close> on every other value).
\<close>

record task =
  task_id :: jsstring
  title :: jsstring
  priority :: jsstring
  completed :: bool
  created :: jsstring
  completedAt :: "jsstring option"

definition task_keys :: "jsstring list" where
  "task_keys = [js ''id'', js ''title'', js ''priority'', js ''completed'', js ''created'']"

definition json_of_task :: "task \<Rightarrow> json" where
  "json_of_task t =
     JObj ([(js ''id'', JStr (task_id t)), (js ''title'', JStr (title t)),
            (js ''priority'', JStr (priority t)), (js ''completed'', JBool (completed t)),
            (js ''created'', JStr (created t))]
           @ (case completedAt t of None \<Rightarrow> [] | Some d \<Rightarrow> [(js ''completedAt'', JStr d)]))"

definition json_of_tasks :: "task list \<Rightarrow> json" where
  "json_of_tasks tasks = JArr (map json_of_task tasks)"

definition as_string :: "json \<Rightarrow> jsstring option" where
  "as_string v = (case v of JStr s \<Rightarrow> Some s | _ \<Rightarrow> None)"

definition as_bool :: "json \<Rightarrow> bool option" where
  "as_bool v = (case v of JBool b \<Rightarrow> Some b | _ \<Rightarrow> None)"

definition task_of_json :: "json \<Rightarrow> task option" where
  "task_of_json v =
     (case v of
        JObj ms \<Rightarrow>
          if map fst ms = task_keys \<or> map fst ms = task_keys @ [js ''completedAt'']
          then
            Option.bind (as_string (snd (ms ! 0))) (\<lambda>i.
            Option.bind (as_string (snd (ms ! 1))) (\<lambda>t.
            Option.bind (as_string (snd (ms ! 2))) (\<lambda>p.
            Option.bind (as_bool (snd (ms ! 3))) (\<lambda>c.
            Option.bind (as_string (snd (ms ! 4))) (\<lambda>d.
            Option.bind (if length ms = 5 then Some None
                         else map_option Some (as_string (snd (ms ! 5)))) (\<lambda>a.
              Some \<lparr>task_id = i, title = t, priority = p, completed = c, created = d,
                    completedAt = a\<rparr>))))))
          else None
      | _ \<Rightarrow> None)"

definition tasks_of_json :: "json \<Rightarrow> task list option" where
  "tasks_of_json v = (case v of JArr vs \<Rightarrow> those (map task_of_json vs) | _ \<Rightarrow> None)"

section \<open>The store file\<close>

text \<open>
  What one run of the script finds outside itself: the text of \<open>TASKS_FILE\<close>
  (\<open>None\<close> when the file does not exist), whether \<open>readFileSync\<close> and
  \<open>writeFileSync\<close> throw (and with which message), the message of the SyntaxError
  \<open>JSON.parse\<close> throws on a malformed text, the reading of the clock as
  \<open>toISOString\<close> prints it, and the identifier \<open>generateId\<close> draws. The text
  is the string the script writes and reads; its UTF-8 encoding on disk is not
  modelled (what \<open>JSON.stringify\<close> prints has no lone surrogate, so the encoding
  loses nothing of it).

  \<open>loadTasks\<close> returns the lines it printed with \<open>console.error\<close> and the value it
  read; \<open>saveTasks\<close> returns the lines it printed and the world it leaves. Both catch
  what the file system and the parser throw.
\<close>

record env =
  content :: "jsstring option"
  read_error :: "jsstring option"
  write_error :: "jsstring option"
  syntax_message :: jsstring
  clock :: jsstring
  fresh_id :: jsstring

definition loadTasks :: "env \<Rightarrow> jsstring list \<times> json" where
  "loadTasks w =
     (case content w of
        None \<Rightarrow> ([], JArr [])
      | Some text \<Rightarrow>
          (case read_error w of
             Some m \<Rightarrow> ([[0x274C] @ js '' Error loading tasks: '' @ m], JArr [])
           | None \<Rightarrow>
               (case JSON_parse text of
                  None \<Rightarrow> ([[0x274C] @ js '' Error loading tasks: '' @ syntax_message w], JArr [])
                | Some v \<Rightarrow> ([], v))))"

definition saveTasks :: "task list \<Rightarrow> env \<Rightarrow> jsstring list \<times> env" where
  "saveTasks tasks w =
     (case write_error w of
        None \<Rightarrow> ([], w\<lparr>content := Some (JSON_stringify (json_of_tasks tasks))\<rparr>)
      | Some m \<Rightarrow> ([[0x274C] @ js '' Error saving tasks: '' @ m], w))"

definition generateId :: "env \<Rightarrow> jsstring" where
  "generateId w = fresh_id w"

definition formatTask :: "task \<Rightarrow> nat \<Rightarrow> jsstring" where
  "formatTask task index =
     (let status = (if completed task then [0x2705] else [0xD83D, 0xDCCB]);
          priority' = (if priority task = js ''high'' then [0xD83D, 0xDD34]
                      else if priority task = js ''medium'' then [0xD83D, 0xDFE1]
                      else [0xD83D, 0xDFE2])
      in decimal (index + 1) @ js ''. '' @ status @ js '' '' @ priority' @ js '' '' @ title task)"

section \<open>Commands\<close>

text \<open>
  A command takes its arguments and the world and yields what it printed on the two
  channels, its exit status (\<open>process.exit(1)\<close> ends the run at once; a handler that
  returns exits with 0) and the world it leaves. The result is \<open>None\<close> when the file
  holds JSON that is not an array of tasks.
\<close>

record outcome =
  stdout :: "jsstring list"
  stderr :: "jsstring list"
  exit_code :: nat
  world :: env

definition at :: "'a list \<Rightarrow> nat \<Rightarrow> 'a option" where
  "at xs i = (if i < length xs then Some (xs ! i) else None)"

definition commands_add :: "jsstring list \<Rightarrow> env \<Rightarrow> outcome option" where
  "commands_add args w =
     (if length args = 0
      then Some \<lparr>stdout = [],
                 stderr = [[0x274C] @ js '' Usage: taskly add <task-title> [--priority=high|medium|low]''],
                 exit_code = 1, world = w\<rparr>
      else
        let title' = join (filter (\<lambda>arg. \<not> startsWith arg (js ''--'')) args) (js '' '');
            priorityArg = find (\<lambda>arg. startsWith arg (js ''--priority='')) args;
            priority' = (case priorityArg of Some a \<Rightarrow> at (split a 0x3D) 1
                        | None \<Rightarrow> Some (js ''low''))
        in case priority' of
             None \<Rightarrow>
               Some \<lparr>stdout = [],
                     stderr = [[0x274C] @ js '' Priority must be: high, medium, or low''],
                     exit_code = 1, world = w\<rparr>
           | Some p \<Rightarrow>
               if \<not> array_includes [js ''high'', js ''medium'', js ''low''] p
               then Some \<lparr>stdout = [],
                          stderr = [[0x274C] @ js '' Priority must be: high, medium, or low''],
                          exit_code = 1, world = w\<rparr>
               else
                 let (errs, loaded) = loadTasks w
                 in case tasks_of_json loaded of
                      None \<Rightarrow> None
                    | Some tasks \<Rightarrow>
                        let newTask = \<lparr>task_id = generateId w, title = title',
                                       priority = p, completed = False,
                                       created = clock w, completedAt = None\<rparr>;
                            (errs', w') = saveTasks (tasks @ [newTask]) w
                        in Some \<lparr>stdout = [[0x2705] @ js '' Task added successfully!'',
                                            [0xD83D, 0xDCCB, 0x20, 0x22] @ title' @ [0x22]
                                              @ js '' ('' @ p @ js '' priority)''],
                                  stderr = errs @ errs', exit_code = 0, world = w'\<rparr>)"

definition list_filter :: "jsstring list \<Rightarrow> jsstring" where
  "list_filter args =
     (if array_includes args (js ''--completed'') then js ''completed''
      else if array_includes args (js ''--pending'') then js ''pending''
      else js ''all'')"

definition filteredTasks :: "jsstring \<Rightarrow> task list \<Rightarrow> task list" where
  "filteredTasks flt tasks =
     (if flt = js ''completed'' then filter (\<lambda>t. completed t) tasks
      else if flt = js ''pending'' then filter (\<lambda>t. \<not> completed t) tasks
      else tasks)"

definition commands_list :: "jsstring list \<Rightarrow> env \<Rightarrow> outcome option" where
  "commands_list args w =
     (let (errs, loaded) = loadTasks w
      in case tasks_of_json loaded of
           None \<Rightarrow> None
         | Some tasks \<Rightarrow>
             if length tasks = 0
             then Some \<lparr>stdout = [[0xD83D, 0xDCCB] @ js '' No tasks found. Add some with ''
                                    @ [0x22] @ js ''taskly add <task>'' @ [0x22]],
                        stderr = errs, exit_code = 0, world = w\<rparr>
             else
               let flt = list_filter args;
                   shown = filteredTasks flt tasks;
                   header = [[0xD83D, 0xDCCB] @ js '' Tasks ('' @ flt @ js ''):'', []]
               in if length shown = 0
                  then Some \<lparr>stdout = header @ [js ''No '' @ flt @ js '' tasks found.''],
                             stderr = errs, exit_code = 0, world = w\<rparr>
                  else Some \<lparr>stdout = header
                                 @ map (\<lambda>(index, task). formatTask task index) (enumerate 0 shown)
                                 @ [[], js ''Total: '' @ decimal (length shown) @ js '' task(s)''],
                             stderr = errs, exit_code = 0, world = w\<rparr>)"

definition invalid_number :: "jsstring list \<Rightarrow> nat \<Rightarrow> env \<Rightarrow> outcome" where
  "invalid_number errs k w =
     \<lparr>stdout = [],
      stderr = errs @ [[0x274C] @ js '' Invalid task number. Use 1-'' @ decimal k],
      exit_code = 1, world = w\<rparr>"

definition commands_complete :: "jsstring list \<Rightarrow> env \<Rightarrow> outcome option" where
  "commands_complete args w =
     (if length args = 0
      then Some \<lparr>stdout = [], stderr = [[0x274C] @ js '' Usage: taskly complete <task-number>''],
                 exit_code = 1, world = w\<rparr>
      else
        let taskNumber = parseInt (hd args);
            (errs, loaded) = loadTasks w
        in case tasks_of_json loaded of
             None \<Rightarrow> None
           | Some tasks \<Rightarrow>
               (case taskNumber of
                  None \<Rightarrow> Some (invalid_number errs (length tasks) w)
                | Some n \<Rightarrow>
                    if n < 1 \<or> n > int (length tasks)
                    then Some (invalid_number errs (length tasks) w)
                    else
                      let i = nat (n - 1); task = tasks ! i
                      in if completed task
                         then Some \<lparr>stdout = [[0x2139, 0xFE0F] @ js ''  Task is already completed!''],
                                    stderr = errs, exit_code = 0, world = w\<rparr>
                         else
                           let task' = task\<lparr>completed := True, completedAt := Some (clock w)\<rparr>;
                               (errs', w') = saveTasks (tasks[i := task']) w
                           in Some \<lparr>stdout = [[0x2705] @ js '' Task completed!'',
                                               [0xD83D, 0xDCCB, 0x20, 0x22] @ title task' @ [0x22]],
                                     stderr = errs @ errs', exit_code = 0, world = w'\<rparr>))"

definition commands_remove :: "jsstring list \<Rightarrow> env \<Rightarrow> outcome option" where
  "commands_remove args w =
     (if length args = 0
      then Some \<lparr>stdout = [], stderr = [[0x274C] @ js '' Usage: taskly remove <task-number>''],
                 exit_code = 1, world = w\<rparr>
      else
        let taskNumber = parseInt (hd args);
            (errs, loaded) = loadTasks w
        in case tasks_of_json loaded of
             None \<Rightarrow> None
           | Some tasks \<Rightarrow>
               (case taskNumber of
                  None \<Rightarrow> Some (invalid_number errs (length tasks) w)
                | Some n \<Rightarrow>
                    if n < 1 \<or> n > int (length tasks)
                    then Some (invalid_number errs (length tasks) w)
                    else
                      let i = nat (n - 1); removedTask = tasks ! i;
                          (errs', w') = saveTasks (take i tasks @ drop (Suc i) tasks) w
                      in Some \<lparr>stdout = [[0xD83D, 0xDDD1, 0xFE0F] @ js ''  Task removed!'',
                                          [0xD83D, 0xDCCB, 0x20, 0x22] @ title removedTask @ [0x22]],
                                stderr = errs @ errs', exit_code = 0, world = w'\<rparr>))"

text \<open>The task sequence the store holds, as a command reads it.\<close>

definition stored :: "env \<Rightarrow> task list option" where
  "stored w = tasks_of_json (snd (loadTasks w))"

text \<open>Two worlds for examples: one in which \<open>TASKS_FILE\<close> does not exist yet, and
  one in which it holds what \<open>saveTasks\<close> wrote for a given sequence.\<close>

definition no_store :: env where
  "no_store = \<lparr>content = None, read_error = None, write_error = None, syntax_message = [],
                clock = js ''2026-01-01T00:00:00.000Z'', fresh_id = js ''k1''\<rparr>"

definition store_with :: "task list \<Rightarrow> env" where
  "store_with tasks = no_store\<lparr>content := Some (JSON_stringify (json_of_tasks tasks))\<rparr>"

definition malformed_store :: env where
  "malformed_store =
     no_store\<lparr>content := Some (js ''not json''), syntax_message := js ''Unexpected token''\<rparr>"

definition taskA :: task where
  "taskA = \<lparr>task_id = js ''a1'', title = js ''A'', priority = js ''low'', completed = False,
             created = js ''2025-12-01T00:00:00.000Z'', completedAt = None\<rparr>"

definition taskB :: task where
  "taskB = \<lparr>task_id = js ''b2'', title = js ''B'', priority = js ''low'', completed = True,
             created = js ''2025-12-02T00:00:00.000Z'',
             completedAt = Some (js ''2025-12-03T00:00:00.000Z'')\<rparr>"

text \<open>The title and the priority \<open>commands.add\<close> computes from its arguments
  (\<open>None\<close> is \<open>undefined\<close>), and the task it builds.\<close>

definition add_title :: "jsstring list \<Rightarrow> jsstring" where
  "add_title args = join (filter (\<lambda>arg. \<not> startsWith arg (js ''--'')) args) (js '' '')"

definition add_priority :: "jsstring list \<Rightarrow> jsstring option" where
  "add_priority args =
     (case find (\<lambda>arg. startsWith arg (js ''--priority='')) args of
        Some a \<Rightarrow> at (split a 0x3D) 1
      | None \<Rightarrow> Some (js ''low''))"

definition added_task :: "jsstring list \<Rightarrow> jsstring \<Rightarrow> env \<Rightarrow> task" where
  "added_task args p w =
     \<lparr>task_id = generateId w, title = add_title args, priority = p, completed = False,
      created = clock w, completedAt = None\<rparr>"

definition priorities :: "jsstring list" where
  "priorities = [js ''high'', js ''medium'', js ''low'']"

section \<open>JSON.parse reads back what JSON.stringify prints\<close>

lemma run_append:
  "run st (a @ b) = (case run st a of None \<Rightarrow> None | Some st' \<Rightarrow> run st' b)"
  by (induction a arbitrary: st) (auto split: option.splits)

lemma hex_digit_value: "d < 16 \<Longrightarrow> digit_value 16 (hex_digit d) = Some d"
proof -
  assume "d < 16"
  then have "d \<in> {0, 1, 2, 3, 4, 5, 6, 7, 8, 9, 10, 11, 12, 13, 14, 15}"
    by (simp; arith)
  then show ?thesis
    by (elim insertE emptyE) (simp_all add: digit_value_def hex_digit_def)
qed

lemma hex_split:
  fixes n :: nat
  assumes "n < 65536"
  shows "((n div 4096 * 16 + n div 256 mod 16) * 16 + n div 16 mod 16) * 16 + n mod 16 = n"
    and "n div 4096 < 16"
proof -
  have a: "n div 256 = n div 16 div 16" and b: "n div 4096 = n div 16 div 16 div 16"
    by (simp_all add: div_mult2_eq)
  show "((n div 4096 * 16 + n div 256 mod 16) * 16 + n div 16 mod 16) * 16 + n mod 16 = n"
    unfolding a b by (simp only: div_mult_mod_eq)
  show "n div 4096 < 16"
    using assms by (simp add: div_less_iff_less_mult)
qed

lemma run_unicode_escape:
  "run (LString acc, p) (UnicodeEscape c @ rest) = run (LString (acc @ [c]), p) rest"
proof -
  define n where "n = unat c"
  have n: "n < 65536" unfolding n_def using unsigned_less [of c] by simp
  have d: "digit_value 16 (hex_digit (n div 4096)) = Some (n div 4096)"
    "digit_value 16 (hex_digit (n div 256 mod 16)) = Some (n div 256 mod 16)"
    "digit_value 16 (hex_digit (n div 16 mod 16)) = Some (n div 16 mod 16)"
    "digit_value 16 (hex_digit (n mod 16)) = Some (n mod 16)"
    using hex_split(2) [OF n] by (simp_all add: hex_digit_value)
  have v: "hex_value [n div 4096, n div 256 mod 16, n div 16 mod 16, n mod 16] = n"
    using hex_split(1) [OF n] by (simp add: hex_value_def)
  have c: "(of_nat n :: jschar) = c" unfolding n_def by simp
  show ?thesis
    unfolding UnicodeEscape_def Let_def n_def [symmetric]
    by (simp add: d v c)
qed

lemma run_quote_unit:
  "run (LString acc, p) (quote_unit c @ rest) = run (LString (acc @ [c]), p) rest"
  unfolding quote_unit_def
  by (simp add: run_unicode_escape unescape_def)

lemma surrogate_plain:
  assumes "is_leading_surrogate c \<or> is_trailing_surrogate c"
  shows "c \<noteq> 0x22" and "c \<noteq> 0x5C" and "\<not> c < 0x20"
  using assms unfolding is_leading_surrogate_def is_trailing_surrogate_def
  by (auto simp: word_le_nat_alt word_less_nat_alt)

lemma run_plain_unit:
  assumes "c \<noteq> 0x22" and "c \<noteq> 0x5C" and "\<not> c < 0x20"
  shows "run (LString acc, p) (c # rest) = run (LString (acc @ [c]), p) rest"
  using assms by simp

lemma run_quote_units:
  "run (LString acc, p) (quote_units s @ rest) = run (LString (acc @ s), p) rest"
proof (induction s arbitrary: acc rule: quote_units.induct)
  case 1
  show ?case by simp
next
  case (2 c)
  show ?case by (simp add: run_quote_unit)
next
  case (3 c d cs)
  show ?case
  proof (cases "is_leading_surrogate c \<and> is_trailing_surrogate d")
    case True
    then have q: "quote_units (c # d # cs) = c # d # quote_units cs"
      by simp
    have pc: "c \<noteq> 0x22" "c \<noteq> 0x5C" "\<not> c < 0x20"
      using True surrogate_plain [of c] by auto
    have pd: "d \<noteq> 0x22" "d \<noteq> 0x5C" "\<not> d < 0x20"
      using True surrogate_plain [of d] by auto
    have "run (LString acc, p) (c # d # quote_units cs @ rest)
            = run (LString (acc @ [c]), p) (d # quote_units cs @ rest)"
      by (rule run_plain_unit [OF pc])
    also have "\<dots> = run (LString ((acc @ [c]) @ [d]), p) (quote_units cs @ rest)"
      by (rule run_plain_unit [OF pd])
    finally show ?thesis
      unfolding q using 3(1) [OF True, of "(acc @ [c]) @ [d]"] by simp
  next
    case False
    then have q: "quote_units (c # d # cs) = quote_unit c @ quote_units (d # cs)"
      by auto
    show ?thesis
      unfolding q using 3(2) [OF False, of "acc @ [c]"] by (simp add: run_quote_unit)
  qed
qed

lemma run_string:
  "run (LIdle, p) (QuoteJSONString s @ rest) =
     (case pstep p (TString s) of None \<Rightarrow> None | Some p' \<Rightarrow> run (LIdle, p') rest)"
  unfolding QuoteJSONString_def
  by (simp add: idle_def is_json_space_def run_quote_units emit_def split: option.splits)

lemma run_spaces: "run (LIdle, p) (replicate n 0x20 @ rest) = run (LIdle, p) rest"
  by (induction n) (simp_all add: idle_def is_json_space_def)

lemma run_newline: "run (LIdle, p) (newline n @ rest) = run (LIdle, p) rest"
  unfolding newline_def by (simp add: idle_def is_json_space_def run_spaces)


lemma run_task:
  assumes "pstep p TLBrace = Some (PObjStart st)"
  shows "run (LIdle, p) (stringify n (json_of_task t) @ rest)
           = run (LIdle, complete_value (json_of_task t) st) rest"
proof (cases "completedAt t")
  case None
  then show ?thesis
    using assms
    by (simp add: json_of_task_def run_string run_newline idle_def emit_def
        is_json_space_def js_def)
next
  case (Some d)
  then show ?thesis
    using assms
    by (simp add: json_of_task_def run_string run_newline idle_def emit_def
        is_json_space_def js_def)
qed


lemma join_Cons: "join (x # xs) sep = x @ concat (map (\<lambda>y. sep @ y) xs)"
  by (induction xs arbitrary: x) simp_all

lemma run_more_tasks:
  "run (LIdle, PArrNext vs st)
     (concat (map (\<lambda>y. (js '','' @ newline (Suc n)) @ y)
                  (map (stringify (Suc n)) (map json_of_task ts)))
      @ newline n @ js '']'' @ rest)
   = run (LIdle, complete_value (JArr (vs @ map json_of_task ts)) st) rest"
proof (induction ts arbitrary: vs)
  case Nil
  show ?case
    by (simp add: run_newline idle_def emit_def is_json_space_def js_def)
next
  case (Cons t ts)
  have "run (LIdle, PArrNext vs st)
          (js '','' @ newline (Suc n) @ stringify (Suc n) (json_of_task t)
           @ concat (map (\<lambda>y. (js '','' @ newline (Suc n)) @ y)
                         (map (stringify (Suc n)) (map json_of_task ts)))
           @ newline n @ js '']'' @ rest)
        = run (LIdle, PArrNext (vs @ [json_of_task t]) st)
           (concat (map (\<lambda>y. (js '','' @ newline (Suc n)) @ y)
                         (map (stringify (Suc n)) (map json_of_task ts)))
           @ newline n @ js '']'' @ rest)"
    by (simp add: run_newline run_task idle_def emit_def is_json_space_def js_def)
  then show ?case
    using Cons.IH [of "vs @ [json_of_task t]"] by simp
qed

lemma run_tasks:
  "run (LIdle, PValue []) (JSON_stringify (json_of_tasks ts))
     = Some (LIdle, PDone (json_of_tasks ts))"
proof (cases ts)
  case Nil
  then show ?thesis
    by (simp add: JSON_stringify_def json_of_tasks_def idle_def emit_def is_json_space_def js_def)
next
  case (Cons t ts')
  have "run (LIdle, PValue [])
          (js ''['' @ newline (Suc 0) @ stringify (Suc 0) (json_of_task t)
           @ concat (map (\<lambda>y. (js '','' @ newline (Suc 0)) @ y)
                         (map (stringify (Suc 0)) (map json_of_task ts')))
           @ newline 0 @ js '']'' @ [])
        = run (LIdle, PArrNext [json_of_task t] [])
           (concat (map (\<lambda>y. (js '','' @ newline (Suc 0)) @ y)
                         (map (stringify (Suc 0)) (map json_of_task ts')))
           @ newline 0 @ js '']'' @ [])"
    by (simp add: run_newline run_task idle_def emit_def is_json_space_def js_def)
  also have "\<dots> = Some (LIdle, PDone (JArr (json_of_task t # map json_of_task ts')))"
    by (simp only: run_more_tasks) simp
  finally show ?thesis
    unfolding Cons JSON_stringify_def json_of_tasks_def
    by (simp add: join_Cons)
qed

lemma JSON_parse_stringify:
  "JSON_parse (JSON_stringify (json_of_tasks ts)) = Some (json_of_tasks ts)"
  by (simp add: JSON_parse_def run_tasks finish_def)

lemma task_of_json_of_task: "task_of_json (json_of_task t) = Some t"
  by (cases "completedAt t")
     (simp_all add: task_of_json_def json_of_task_def task_keys_def as_string_def as_bool_def)

lemma those_decoded: "those (map task_of_json (map json_of_task ts)) = Some ts"
  by (induction ts) (simp_all add: task_of_json_of_task)

lemma tasks_of_json_of_tasks: "tasks_of_json (json_of_tasks ts) = Some ts"
  unfolding tasks_of_json_def json_of_tasks_def by (simp only: json.case those_decoded)

section \<open>Loading what was saved\<close>

lemma loadTasks_saved:
  assumes "read_error w = None"
  shows "loadTasks (w\<lparr>content := Some (JSON_stringify (json_of_tasks tasks))\<rparr>)
           = ([], json_of_tasks tasks)"
  using assms by (simp add: loadTasks_def JSON_parse_stringify)

lemma stored_saved:
  assumes "read_error w = None"
  shows "stored (w\<lparr>content := Some (JSON_stringify (json_of_tasks tasks))\<rparr>) = Some tasks"
  using assms by (simp add: stored_def loadTasks_saved tasks_of_json_of_tasks)

lemma stored_store_with: "stored (store_with tasks) = Some tasks"
  unfolding store_with_def by (rule stored_saved) (simp add: no_store_def)

lemma loadTasks_store_with: "loadTasks (store_with tasks) = ([], json_of_tasks tasks)"
  unfolding store_with_def by (rule loadTasks_saved) (simp add: no_store_def)

lemma stored_no_store: "stored no_store = Some []"
  by (simp add: stored_def loadTasks_def no_store_def tasks_of_json_def)

section \<open>What each command does on a store that holds tasks\<close>

lemma load_error_empty: "fst (loadTasks w) \<noteq> [] \<Longrightarrow> snd (loadTasks w) = JArr []"
  by (auto simp: loadTasks_def split: option.splits)

lemma stored_nonempty_no_error:
  assumes "stored w = Some tasks" and "tasks \<noteq> []"
  shows "fst (loadTasks w) = []"
proof (rule ccontr)
  assume "fst (loadTasks w) \<noteq> []"
  then have "snd (loadTasks w) = JArr []" by (rule load_error_empty)
  then have "stored w = Some []" by (simp add: stored_def tasks_of_json_def)
  then show False using assms by simp
qed

lemma commands_add_rejects:
  assumes "args \<noteq> []"
    and "add_priority args = None \<or> (\<exists>p. add_priority args = Some p \<and> \<not> array_includes priorities p)"
  shows "commands_add args w
           = Some \<lparr>stdout = [],
                   stderr = [[0x274C] @ js '' Priority must be: high, medium, or low''],
                   exit_code = 1, world = w\<rparr>"
  using assms
  by (auto simp: commands_add_def add_priority_def priorities_def Let_def)

lemma commands_add_accepts:
  assumes "args \<noteq> []" and "add_priority args = Some p" and "array_includes priorities p"
    and "stored w = Some tasks"
  shows "commands_add args w
           = Some \<lparr>stdout = [[0x2705] @ js '' Task added successfully!'',
                             [0xD83D, 0xDCCB, 0x20, 0x22] @ add_title args @ [0x22]
                               @ js '' ('' @ p @ js '' priority)''],
                   stderr = fst (loadTasks w) @ fst (saveTasks (tasks @ [added_task args p w]) w),
                   exit_code = 0,
                   world = snd (saveTasks (tasks @ [added_task args p w]) w)\<rparr>"
proof (cases "loadTasks w")
  case (Pair errs loaded)
  then have "tasks_of_json loaded = Some tasks"
    using assms(4) by (simp add: stored_def)
  then show ?thesis
    using Pair assms(1-3)
    by (simp add: commands_add_def add_priority_def add_title_def added_task_def priorities_def
        Let_def split: prod.splits)
qed

lemma commands_complete_eq:
  assumes "args \<noteq> []" and "stored w = Some tasks"
  shows "commands_complete args w =
     (case parseInt (hd args) of
        None \<Rightarrow> Some (invalid_number (fst (loadTasks w)) (length tasks) w)
      | Some n \<Rightarrow>
          if n < 1 \<or> n > int (length tasks)
          then Some (invalid_number (fst (loadTasks w)) (length tasks) w)
          else if completed (tasks ! nat (n - 1))
          then Some \<lparr>stdout = [[0x2139, 0xFE0F] @ js ''  Task is already completed!''],
                     stderr = fst (loadTasks w), exit_code = 0, world = w\<rparr>
          else
            let task' = (tasks ! nat (n - 1))\<lparr>completed := True, completedAt := Some (clock w)\<rparr>;
                saved = saveTasks (tasks[nat (n - 1) := task']) w
            in Some \<lparr>stdout = [[0x2705] @ js '' Task completed!'',
                                [0xD83D, 0xDCCB, 0x20, 0x22] @ title task' @ [0x22]],
                      stderr = fst (loadTasks w) @ fst saved, exit_code = 0,
                      world = snd saved\<rparr>)"
proof (cases "loadTasks w")
  case (Pair errs loaded)
  then have "tasks_of_json loaded = Some tasks"
    using assms(2) by (simp add: stored_def)
  then show ?thesis
    using Pair assms(1)
    by (simp add: commands_complete_def Let_def split: prod.splits option.splits)
qed

lemma commands_remove_eq:
  assumes "args \<noteq> []" and "stored w = Some tasks"
  shows "commands_remove args w =
     (case parseInt (hd args) of
        None \<Rightarrow> Some (invalid_number (fst (loadTasks w)) (length tasks) w)
      | Some n \<Rightarrow>
          if n < 1 \<or> n > int (length tasks)
          then Some (invalid_number (fst (loadTasks w)) (length tasks) w)
          else
            let saved = saveTasks (take (nat (n - 1)) tasks @ drop (Suc (nat (n - 1))) tasks) w
            in Some \<lparr>stdout = [[0xD83D, 0xDDD1, 0xFE0F] @ js ''  Task removed!'',
                                [0xD83D, 0xDCCB, 0x20, 0x22] @ title (tasks ! nat (n - 1)) @ [0x22]],
                      stderr = fst (loadTasks w) @ fst saved, exit_code = 0,
                      world = snd saved\<rparr>)"
proof (cases "loadTasks w")
  case (Pair errs loaded)
  then have "tasks_of_json loaded = Some tasks"
    using assms(2) by (simp add: stored_def)
  then show ?thesis
    using Pair assms(1)
    by (simp add: commands_remove_def Let_def split: prod.splits option.splits)
qed

lemma commands_list_eq:
  assumes "stored w = Some tasks"
  shows "commands_list args w =
     (if tasks = []
      then Some \<lparr>stdout = [[0xD83D, 0xDCCB] @ js '' No tasks found. Add some with ''
                            @ [0x22] @ js ''taskly add <task>'' @ [0x22]],
                 stderr = fst (loadTasks w), exit_code = 0, world = w\<rparr>
      else if filteredTasks (list_filter args) tasks = []
      then Some \<lparr>stdout = [[0xD83D, 0xDCCB] @ js '' Tasks ('' @ list_filter args @ js ''):'', [],
                           js ''No '' @ list_filter args @ js '' tasks found.''],
                 stderr = fst (loadTasks w), exit_code = 0, world = w\<rparr>
      else Some \<lparr>stdout = [[0xD83D, 0xDCCB] @ js '' Tasks ('' @ list_filter args @ js ''):'', []]
                     @ map (\<lambda>(index, task). formatTask task index)
                           (enumerate 0 (filteredTasks (list_filter args) tasks))
                     @ [[], js ''Total: ''
                            @ decimal (length (filteredTasks (list_filter args) tasks))
                            @ js '' task(s)''],
                 stderr = fst (loadTasks w), exit_code = 0, world = w\<rparr>)"
proof (cases "loadTasks w")
  case (Pair errs loaded)
  then have "tasks_of_json loaded = Some tasks"
    using assms by (simp add: stored_def)
  then show ?thesis
    using Pair by (simp add: commands_list_def Let_def)
qed

section \<open>list\<close>

lemma commands_list_shape:
  assumes "stored w = Some tasks"
  shows "\<exists>out. commands_list args w
           = Some \<lparr>stdout = out, stderr = fst (loadTasks w), exit_code = 0, world = w\<rparr>"
proof (cases "loadTasks w")
  case (Pair errs loaded)
  then have "tasks_of_json loaded = Some tasks"
    using assms by (simp add: stored_def)
  then show ?thesis
    using Pair by (simp add: commands_list_def Let_def)
qed

text \<open>
  C10. Running \<open>list\<close> never writes to the store: whatever the arguments and the
  world, the world the command leaves is the world it found; and on every store that
  holds a task sequence the command returns, and the store holds the same sequence
  afterwards.
\<close>

theorem list_never_writes:
  "(\<forall>r. commands_list args w = Some r \<longrightarrow> world r = w)
   \<and> (\<forall>tasks. stored w = Some tasks \<longrightarrow>
         (\<exists>r. commands_list args w = Some r \<and> world r = w \<and> stored (world r) = Some tasks))"
proof (intro conjI allI impI)
  fix r
  assume r: "commands_list args w = Some r"
  show "world r = w"
  proof (cases "stored w")
    case None
    then have "commands_list args w = None"
      by (cases "loadTasks w") (simp add: commands_list_def stored_def)
    then show ?thesis
      using r by simp
  next
    case (Some tasks)
    then obtain out where "commands_list args w
        = Some \<lparr>stdout = out, stderr = fst (loadTasks w), exit_code = 0, world = w\<rparr>"
      using commands_list_shape by blast
    then show ?thesis
      using r by auto
  qed
next
  fix tasks
  assume s: "stored w = Some tasks"
  obtain out where "commands_list args w
      = Some \<lparr>stdout = out, stderr = fst (loadTasks w), exit_code = 0, world = w\<rparr>"
    using commands_list_shape [OF s] by blast
  then show "\<exists>r. commands_list args w = Some r \<and> world r = w \<and> stored (world r) = Some tasks"
    using s by simp
qed

theorem list_never_writes_witness:
  "stored (store_with [taskA, taskB]) = Some [taskA, taskB] \<and>
   (\<exists>r. commands_list [js ''--pending''] (store_with [taskA, taskB]) = Some r
        \<and> world r = store_with [taskA, taskB]
        \<and> stored (world r) = Some [taskA, taskB])"
proof
  show s: "stored (store_with [taskA, taskB]) = Some [taskA, taskB]"
    by (rule stored_store_with)
  show "\<exists>r. commands_list [js ''--pending''] (store_with [taskA, taskB]) = Some r
        \<and> world r = store_with [taskA, taskB]
        \<and> stored (world r) = Some [taskA, taskB]"
    using list_never_writes [of "[js ''--pending'']" "store_with [taskA, taskB]"] s by blast
qed

text \<open>What \<open>list\<close> prints for the completed task of the examples, and the header
  and the empty-state line of the completed-only listing.\<close>

lemma decimal_1: "decimal 1 = js ''1''" and decimal_2: "decimal 2 = js ''2''"
  by (simp_all add: digit_def js_def)

lemma formatTask_taskB:
  "formatTask taskB 0 = js ''1. '' @ [0x2705] @ js '' '' @ [0xD83D, 0xDFE2] @ js '' B''"
  "formatTask taskB 1 = js ''2. '' @ [0x2705] @ js '' '' @ [0xD83D, 0xDFE2] @ js '' B''"
  by (simp_all add: formatTask_def taskB_def Let_def digit_def js_def)

lemma completed_header:
  "[0xD83D, 0xDCCB] @ js '' Tasks ('' @ js ''completed'' @ js ''):''
     = [0xD83D, 0xDCCB] @ js '' Tasks (completed):''"
  "js ''No '' @ js ''completed'' @ js '' tasks found.'' = js ''No completed tasks found.''"
  by (simp_all add: js_def)

text \<open>
  C8. When the arguments of \<open>list\<close> contain both \<open>--completed\<close> and
  \<open>--pending\<close>, the filter is \<open>completed\<close> and exactly the completed tasks are
  selected. On a store that holds tasks the command prints the completed-only
  listing: the header \<open>Tasks (completed):\<close>, then the completed tasks alone, in
  stored order and numbered from 1, and their count; or, when no task is completed,
  the line \<open>No completed tasks found.\<close> It does what it does with \<open>--completed\<close>
  alone.
\<close>

theorem completed_wins:
  assumes "array_includes args (js ''--completed'')"
    and "array_includes args (js ''--pending'')"
  shows "list_filter args = js ''completed''
       \<and> (\<forall>tasks. filteredTasks (list_filter args) tasks = filter completed tasks)
       \<and> commands_list args w = commands_list [js ''--completed''] w
       \<and> (\<forall>tasks. stored w = Some tasks \<and> filter completed tasks \<noteq> [] \<longrightarrow>
             commands_list args w =
               Some \<lparr>stdout = [[0xD83D, 0xDCCB] @ js '' Tasks (completed):'', []]
                        @ map (\<lambda>(index, task). formatTask task index)
                              (enumerate 0 (filter completed tasks))
                        @ [[], js ''Total: '' @ decimal (length (filter completed tasks))
                               @ js '' task(s)''],
                     stderr = fst (loadTasks w), exit_code = 0, world = w\<rparr>)
       \<and> (\<forall>tasks. stored w = Some tasks \<and> tasks \<noteq> [] \<and> filter completed tasks = [] \<longrightarrow>
             commands_list args w =
               Some \<lparr>stdout = [[0xD83D, 0xDCCB] @ js '' Tasks (completed):'', [],
                                js ''No completed tasks found.''],
                     stderr = fst (loadTasks w), exit_code = 0, world = w\<rparr>)"
proof -
  have a: "list_filter args = js ''completed''"
    using assms by (simp add: list_filter_def)
  have b: "list_filter [js ''--completed''] = js ''completed''"
    by (simp add: list_filter_def array_includes_def)
  have c: "commands_list args w = commands_list [js ''--completed''] w"
    unfolding commands_list_def a b ..
  have f': "filteredTasks (js ''completed'') tasks = filter completed tasks" for tasks
    by (simp add: filteredTasks_def)
  have f: "filteredTasks (list_filter args) tasks = filter completed tasks" for tasks
    unfolding a by (rule f')
  have d: "commands_list args w =
               Some \<lparr>stdout = [[0xD83D, 0xDCCB] @ js '' Tasks (completed):'', []]
                        @ map (\<lambda>(index, task). formatTask task index)
                              (enumerate 0 (filter completed tasks))
                        @ [[], js ''Total: '' @ decimal (length (filter completed tasks))
                               @ js '' task(s)''],
                     stderr = fst (loadTasks w), exit_code = 0, world = w\<rparr>"
    if "stored w = Some tasks" and "filter completed tasks \<noteq> []" for tasks
  proof -
    have t: "tasks \<noteq> []"
      using that(2) by auto
    show ?thesis
      by (simp only: commands_list_eq [OF that(1)] a f' t that(2) if_False completed_header)
  qed
  have e: "commands_list args w =
               Some \<lparr>stdout = [[0xD83D, 0xDCCB] @ js '' Tasks (completed):'', [],
                                js ''No completed tasks found.''],
                     stderr = fst (loadTasks w), exit_code = 0, world = w\<rparr>"
    if "stored w = Some tasks" and "tasks \<noteq> []" and "filter completed tasks = []" for tasks
    by (simp only: commands_list_eq [OF that(1)] a f' that(2,3) if_False if_True completed_header
        simp_thms)
  show ?thesis
  proof (intro conjI allI impI)
    show "list_filter args = js ''completed''"
      by (rule a)
    show "filteredTasks (list_filter args) tasks = filter completed tasks" for tasks
      by (rule f)
    show "commands_list args w = commands_list [js ''--completed''] w"
      by (rule c)
    show "commands_list args w =
               Some \<lparr>stdout = [[0xD83D, 0xDCCB] @ js '' Tasks (completed):'', []]
                        @ map (\<lambda>(index, task). formatTask task index)
                              (enumerate 0 (filter completed tasks))
                        @ [[], js ''Total: '' @ decimal (length (filter completed tasks))
                               @ js '' task(s)''],
                     stderr = fst (loadTasks w), exit_code = 0, world = w\<rparr>"
      if "stored w = Some tasks \<and> filter completed tasks \<noteq> []" for tasks
      by (rule d [OF conjunct1 [OF that] conjunct2 [OF that]])
    show "commands_list args w =
               Some \<lparr>stdout = [[0xD83D, 0xDCCB] @ js '' Tasks (completed):'', [],
                                js ''No completed tasks found.''],
                     stderr = fst (loadTasks w), exit_code = 0, world = w\<rparr>"
      if "stored w = Some tasks \<and> tasks \<noteq> [] \<and> filter completed tasks = []" for tasks
      by (rule e [OF conjunct1 [OF that] conjunct1 [OF conjunct2 [OF that]]
            conjunct2 [OF conjunct2 [OF that]]])
  qed
qed

theorem completed_wins_witness:
  "array_includes [js ''--pending'', js ''--completed''] (js ''--completed'')
   \<and> array_includes [js ''--pending'', js ''--completed''] (js ''--pending'')
   \<and> stored (store_with [taskA, taskB]) = Some [taskA, taskB]
   \<and> filter completed [taskA, taskB] = [taskB]
   \<and> list_filter [js ''--pending'', js ''--completed''] = js ''completed''
   \<and> commands_list [js ''--pending'', js ''--completed''] (store_with [taskA, taskB])
       = Some \<lparr>stdout = [[0xD83D, 0xDCCB] @ js '' Tasks (completed):'', [],
                          js ''1. '' @ [0x2705] @ js '' '' @ [0xD83D, 0xDFE2] @ js '' B'',
                          [], js ''Total: 1 task(s)''],
               stderr = [], exit_code = 0, world = store_with [taskA, taskB]\<rparr>"
proof -
  have a: "array_includes [js ''--pending'', js ''--completed''] (js ''--completed'')"
    and b: "array_includes [js ''--pending'', js ''--completed''] (js ''--pending'')"
    by (simp_all add: array_includes_def)
  have s: "stored (store_with [taskA, taskB]) = Some [taskA, taskB]"
    by (rule stored_store_with)
  have g: "filter completed [taskA, taskB] = [taskB]"
    by (simp add: taskA_def taskB_def)
  have n: "filter completed [taskA, taskB] \<noteq> []"
    unfolding g by simp
  have l: "fst (loadTasks (store_with [taskA, taskB])) = []"
    by (simp add: loadTasks_store_with)
  note u = completed_wins [OF a b, of "store_with [taskA, taskB]"]
  have 1: "list_filter [js ''--pending'', js ''--completed''] = js ''completed''"
    using u by blast
  have "commands_list [js ''--pending'', js ''--completed''] (store_with [taskA, taskB]) =
               Some \<lparr>stdout = [[0xD83D, 0xDCCB] @ js '' Tasks (completed):'', []]
                        @ map (\<lambda>(index, task). formatTask task index)
                              (enumerate 0 (filter completed [taskA, taskB]))
                        @ [[], js ''Total: '' @ decimal (length (filter completed [taskA, taskB]))
                               @ js '' task(s)''],
                     stderr = fst (loadTasks (store_with [taskA, taskB])), exit_code = 0,
                     world = store_with [taskA, taskB]\<rparr>"
    using u s n by blast
  then have 2: "commands_list [js ''--pending'', js ''--completed''] (store_with [taskA, taskB])
       = Some \<lparr>stdout = [[0xD83D, 0xDCCB] @ js '' Tasks (completed):'', [],
                          js ''1. '' @ [0x2705] @ js '' '' @ [0xD83D, 0xDFE2] @ js '' B'',
                          [], js ''Total: 1 task(s)''],
               stderr = [], exit_code = 0, world = store_with [taskA, taskB]\<rparr>"
    unfolding g l by (simp add: formatTask_taskB js_def digit_def)
  show ?thesis
    using a b s g 1 2 by blast
qed

section \<open>complete\<close>

text \<open>
  C5. When the number given to \<open>complete\<close> is a valid index and the task at that
  position is already completed, the command prints the informational line on the
  output channel and nothing on the error channel, exits with 0, and leaves the world
  as it found it: nothing is written, so every field of every task (the
  \<open>completedAt\<close> of that task too) is what it was.
\<close>

theorem complete_already_completed:
  assumes "stored w = Some tasks" and "args \<noteq> []" and "parseInt (hd args) = Some n"
    and "1 \<le> n" and "n \<le> int (length tasks)" and "completed (tasks ! nat (n - 1))"
  shows "\<exists>r. commands_complete args w = Some r
           \<and> stdout r = [[0x2139, 0xFE0F] @ js ''  Task is already completed!'']
           \<and> stderr r = [] \<and> exit_code r = 0 \<and> world r = w
           \<and> stored (world r) = Some tasks"
proof -
  have "tasks \<noteq> []" using assms(4,5) by auto
  then have "fst (loadTasks w) = []"
    using assms(1) by (rule stored_nonempty_no_error [rotated])
  then show ?thesis
    using assms by (simp add: commands_complete_eq)
qed

lemma parseInt_2: "parseInt (js ''2'') = Some 2"
  by (simp add: parseInt_def js_def StrWhiteSpaceChar_def startsWith_def radix_number_def
      digit_value_def Let_def)

theorem complete_already_completed_witness:
  "stored (store_with [taskA, taskB]) = Some [taskA, taskB]
   \<and> parseInt (hd [js ''2'']) = Some 2
   \<and> completed ([taskA, taskB] ! nat (2 - 1))
   \<and> (\<exists>r. commands_complete [js ''2''] (store_with [taskA, taskB]) = Some r
         \<and> stdout r = [[0x2139, 0xFE0F] @ js ''  Task is already completed!'']
         \<and> stderr r = [] \<and> exit_code r = 0 \<and> world r = store_with [taskA, taskB]
         \<and> stored (world r) = Some [taskA, taskB])"
proof -
  have a: "stored (store_with [taskA, taskB]) = Some [taskA, taskB]"
    by (rule stored_store_with)
  have b: "parseInt (hd [js ''2'']) = Some 2"
    by (simp add: parseInt_2)
  have c: "completed ([taskA, taskB] ! nat (2 - 1))"
    by (simp add: taskB_def)
  have "\<exists>r. commands_complete [js ''2''] (store_with [taskA, taskB]) = Some r
         \<and> stdout r = [[0x2139, 0xFE0F] @ js ''  Task is already completed!'']
         \<and> stderr r = [] \<and> exit_code r = 0 \<and> world r = store_with [taskA, taskB]
         \<and> stored (world r) = Some [taskA, taskB]"
    by (rule complete_already_completed [OF a _ b _ _ c]) simp_all
  then show ?thesis
    using a b c by blast
qed

section \<open>The store\<close>

lemma stored_saveTasks:
  assumes "write_error w = None" and "read_error w = None"
  shows "stored (snd (saveTasks tasks w)) = Some tasks"
  using assms by (simp add: saveTasks_def stored_saved)

lemma no_errors_examples:
  "write_error no_store = None" "read_error no_store = None"
  "write_error malformed_store = None" "read_error malformed_store = None"
  "write_error (store_with tasks) = None" "read_error (store_with tasks) = None"
  by (simp_all add: no_store_def malformed_store_def store_with_def)

text \<open>
  C6. Saving a sequence of tasks and then loading yields the same sequence: when the
  file can be written and read, \<open>saveTasks\<close> reports no error, \<open>loadTasks\<close>
  reports none and returns the array of the tasks' objects, with the same properties
  and values in the same order, which is read as the tasks that were saved.
\<close>

theorem save_then_load:
  assumes "write_error w = None" and "read_error w = None"
  shows "fst (saveTasks tasks w) = []
       \<and> loadTasks (snd (saveTasks tasks w)) = ([], json_of_tasks tasks)
       \<and> stored (snd (saveTasks tasks w)) = Some tasks"
  using assms by (simp add: saveTasks_def loadTasks_saved stored_saved)

theorem save_then_load_witness:
  "write_error no_store = None \<and> read_error no_store = None
   \<and> fst (saveTasks [taskA, taskB] no_store) = []
   \<and> loadTasks (snd (saveTasks [taskA, taskB] no_store)) = ([], json_of_tasks [taskA, taskB])
   \<and> stored (snd (saveTasks [taskA, taskB] no_store)) = Some [taskA, taskB]"
proof -
  have a: "write_error no_store = None" and b: "read_error no_store = None"
    by (simp_all add: no_store_def)
  show ?thesis
    using save_then_load [OF a b, of "[taskA, taskB]"] a b by blast
qed

lemma load_failure:
  assumes "content w = None
         \<or> (\<exists>text. content w = Some text \<and> (read_error w \<noteq> None \<or> JSON_parse text = None))"
  shows "loadTasks w =
           (case content w of
              None \<Rightarrow> []
            | Some text \<Rightarrow>
                [[0x274C] @ js '' Error loading tasks: ''
                 @ (case read_error w of Some m \<Rightarrow> m | None \<Rightarrow> syntax_message w)],
            JArr [])"
  using assms by (auto simp: loadTasks_def split: option.splits)

text \<open>
  C7. When the file is absent, or it is there and reading it or parsing its text
  fails, \<open>loadTasks\<close> returns the empty array. It prints nothing when the file is
  absent and one line on the error channel otherwise, and the command that called it
  goes on with no tasks: \<open>list\<close> reports that there are none and exits with 0,
  \<open>add\<close> saves the new task alone, \<open>complete\<close> and \<open>remove\<close> reject every
  number.
\<close>

theorem load_absorbs_failures:
  assumes "content w = None
         \<or> (\<exists>text. content w = Some text \<and> (read_error w \<noteq> None \<or> JSON_parse text = None))"
  shows "snd (loadTasks w) = JArr []
       \<and> stored w = Some []
       \<and> fst (loadTasks w) =
           (case content w of
              None \<Rightarrow> []
            | Some text \<Rightarrow>
                [[0x274C] @ js '' Error loading tasks: ''
                 @ (case read_error w of Some m \<Rightarrow> m | None \<Rightarrow> syntax_message w)])
       \<and> commands_list args w =
           Some \<lparr>stdout = [[0xD83D, 0xDCCB] @ js '' No tasks found. Add some with ''
                            @ [0x22] @ js ''taskly add <task>'' @ [0x22]],
                 stderr = fst (loadTasks w), exit_code = 0, world = w\<rparr>
       \<and> (\<forall>p. args \<noteq> [] \<and> add_priority args = Some p \<and> array_includes priorities p \<longrightarrow>
             commands_add args w =
               Some \<lparr>stdout = [[0x2705] @ js '' Task added successfully!'',
                                [0xD83D, 0xDCCB, 0x20, 0x22] @ add_title args @ [0x22]
                                  @ js '' ('' @ p @ js '' priority)''],
                     stderr = fst (loadTasks w) @ fst (saveTasks [added_task args p w] w),
                     exit_code = 0,
                     world = snd (saveTasks [added_task args p w] w)\<rparr>)
       \<and> (args \<noteq> [] \<longrightarrow>
             commands_complete args w = Some (invalid_number (fst (loadTasks w)) 0 w)
           \<and> commands_remove args w = Some (invalid_number (fst (loadTasks w)) 0 w))"
proof -
  note l = load_failure [OF assms]
  have s: "stored w = Some []"
    by (simp add: stored_def l tasks_of_json_def)
  have "commands_list args w =
           Some \<lparr>stdout = [[0xD83D, 0xDCCB] @ js '' No tasks found. Add some with ''
                            @ [0x22] @ js ''taskly add <task>'' @ [0x22]],
                 stderr = fst (loadTasks w), exit_code = 0, world = w\<rparr>"
    by (simp add: commands_list_eq [OF s])
  moreover have "\<forall>p. args \<noteq> [] \<and> add_priority args = Some p \<and> array_includes priorities p \<longrightarrow>
             commands_add args w =
               Some \<lparr>stdout = [[0x2705] @ js '' Task added successfully!'',
                                [0xD83D, 0xDCCB, 0x20, 0x22] @ add_title args @ [0x22]
                                  @ js '' ('' @ p @ js '' priority)''],
                     stderr = fst (loadTasks w) @ fst (saveTasks [added_task args p w] w),
                     exit_code = 0,
                     world = snd (saveTasks [added_task args p w] w)\<rparr>"
    using commands_add_accepts [OF _ _ _ s, of args] by simp
  moreover have "args \<noteq> [] \<longrightarrow>
             commands_complete args w = Some (invalid_number (fst (loadTasks w)) 0 w)
           \<and> commands_remove args w = Some (invalid_number (fst (loadTasks w)) 0 w)"
    by (auto simp: commands_complete_eq [OF _ s] commands_remove_eq [OF _ s]
        split: option.splits)
  ultimately show ?thesis
    using s by (simp add: l)
qed

lemma not_json: "JSON_parse (js ''not json'') = None"
  by (simp add: JSON_parse_def js_def idle_def is_json_space_def emit_def is_digit_def)


lemma add_priority_default: "add_priority [js ''A''] = Some (js ''low'')"
  by (simp add: add_priority_def startsWith_def js_def)

theorem load_absorbs_failures_witness:
  "content malformed_store = Some (js ''not json'') \<and> JSON_parse (js ''not json'') = None
   \<and> snd (loadTasks malformed_store) = JArr []
   \<and> stored malformed_store = Some []
   \<and> fst (loadTasks malformed_store) = [[0x274C] @ js '' Error loading tasks: Unexpected token'']
   \<and> commands_list [js ''A''] malformed_store =
        Some \<lparr>stdout = [[0xD83D, 0xDCCB] @ js '' No tasks found. Add some with ''
                         @ [0x22] @ js ''taskly add <task>'' @ [0x22]],
              stderr = fst (loadTasks malformed_store), exit_code = 0, world = malformed_store\<rparr>
   \<and> (\<exists>r. commands_add [js ''A''] malformed_store = Some r \<and> exit_code r = 0
          \<and> stored (world r) = Some [added_task [js ''A''] (js ''low'') malformed_store])
   \<and> commands_complete [js ''A''] malformed_store
        = Some (invalid_number (fst (loadTasks malformed_store)) 0 malformed_store)"
proof -
  have c: "content malformed_store = Some (js ''not json'')"
    by (simp add: malformed_store_def)
  have h: "content malformed_store = None
         \<or> (\<exists>text. content malformed_store = Some text
              \<and> (read_error malformed_store \<noteq> None \<or> JSON_parse text = None))"
    by (simp add: c not_json)
  note t = load_absorbs_failures [OF h, of "[js ''A'']"]
  have p: "array_includes priorities (js ''low'')"
    by (simp add: array_includes_def priorities_def)
  have a: "commands_add [js ''A''] malformed_store =
             Some \<lparr>stdout = [[0x2705] @ js '' Task added successfully!'',
                              [0xD83D, 0xDCCB, 0x20, 0x22] @ add_title [js ''A''] @ [0x22]
                                @ js '' ('' @ js ''low'' @ js '' priority)''],
                   stderr = fst (loadTasks malformed_store)
                     @ fst (saveTasks [added_task [js ''A''] (js ''low'') malformed_store] malformed_store),
                   exit_code = 0,
                   world = snd (saveTasks [added_task [js ''A''] (js ''low'') malformed_store]
                                 malformed_store)\<rparr>"
    using t add_priority_default p by blast
  have s: "stored (snd (saveTasks [added_task [js ''A''] (js ''low'') malformed_store] malformed_store))
            = Some [added_task [js ''A''] (js ''low'') malformed_store]"
    by (simp add: stored_saveTasks no_errors_examples)
  have e: "fst (loadTasks malformed_store)
            = [[0x274C] @ js '' Error loading tasks: Unexpected token'']"
    using t by (simp add: malformed_store_def no_store_def js_def)
  show ?thesis
    using t c not_json a s e by simp
qed

section \<open>The number given to complete and remove\<close>

lemma parseInt_abc: "parseInt (js ''abc'') = None"
  by (simp add: parseInt_def js_def StrWhiteSpaceChar_def startsWith_def radix_number_def
      digit_value_def Let_def)

lemma parseInt_1abc: "parseInt (js ''1abc'') = Some 1"
  by (simp add: parseInt_def js_def StrWhiteSpaceChar_def startsWith_def radix_number_def
      digit_value_def Let_def)

text \<open>
  C3, as stated, fails: the argument \<open>1abc\<close> is not a numeral, yet \<open>parseInt\<close>
  reads the integer it starts with, and on a store with one pending task
  \<open>complete 1abc\<close> exits with 0 and writes the store.
\<close>

theorem complete_accepts_integer_prefix:
  "\<not> list_all is_digit (js ''1abc'')
   \<and> stored (store_with [taskA]) = Some [taskA]
   \<and> (\<exists>r. commands_complete [js ''1abc''] (store_with [taskA]) = Some r
         \<and> exit_code r = 0
         \<and> stored (world r)
             = Some [taskA\<lparr>completed := True, completedAt := Some (clock (store_with [taskA]))\<rparr>]
         \<and> stored (world r) \<noteq> stored (store_with [taskA]))"
proof -
  have a: "\<not> list_all is_digit (js ''1abc'')"
    by (simp add: js_def is_digit_def)
  have s: "stored (store_with [taskA]) = Some [taskA]"
    by (rule stored_store_with)
  have c: "\<not> completed taskA"
    by (simp add: taskA_def)
  have d: "taskA\<lparr>completed := True, completedAt := Some (clock (store_with [taskA]))\<rparr> \<noteq> taskA"
    by (simp add: taskA_def)
  show ?thesis
    using a s d
    by (simp add: commands_complete_eq [OF _ s] parseInt_1abc c Let_def stored_saveTasks
        no_errors_examples)
qed

text \<open>
  C3, amended. For a store with \<open>k\<close> tasks, if the number \<open>parseInt\<close> reads from
  the first argument of \<open>complete\<close> or \<open>remove\<close> is not-a-number, less than 1 or
  greater than \<open>k\<close>, the command prints the valid range \<open>1-k\<close> on the error channel,
  exits with 1 and leaves the world as it found it. The argument \<open>abc\<close> is read as
  not-a-number.
\<close>

theorem invalid_number_rejected:
  assumes "stored w = Some tasks" and "args \<noteq> []"
    and "parseInt (hd args) = None
       \<or> (\<exists>n. parseInt (hd args) = Some n \<and> (n < 1 \<or> int (length tasks) < n))"
  shows "(\<exists>r. commands_complete args w = Some r \<and> commands_remove args w = Some r
             \<and> stdout r = []
             \<and> stderr r = fst (loadTasks w)
                 @ [[0x274C] @ js '' Invalid task number. Use 1-'' @ decimal (length tasks)]
             \<and> exit_code r = 1 \<and> world r = w \<and> stored (world r) = Some tasks)"
proof -
  have "commands_complete args w = Some (invalid_number (fst (loadTasks w)) (length tasks) w)"
    using assms(3) by (auto simp: commands_complete_eq [OF assms(2,1)])
  moreover
  have "commands_remove args w = Some (invalid_number (fst (loadTasks w)) (length tasks) w)"
    using assms(3) by (auto simp: commands_remove_eq [OF assms(2,1)])
  ultimately show ?thesis
    using assms(1) by (simp add: invalid_number_def)
qed

theorem invalid_number_rejected_witness:
  "stored (store_with [taskA, taskB]) = Some [taskA, taskB]
   \<and> parseInt (hd [js ''abc'']) = None
   \<and> (\<exists>r. commands_complete [js ''abc''] (store_with [taskA, taskB]) = Some r
         \<and> commands_remove [js ''abc''] (store_with [taskA, taskB]) = Some r
         \<and> stdout r = []
         \<and> stderr r = fst (loadTasks (store_with [taskA, taskB]))
             @ [[0x274C] @ js '' Invalid task number. Use 1-'' @ decimal (length [taskA, taskB])]
         \<and> exit_code r = 1 \<and> world r = store_with [taskA, taskB]
         \<and> stored (world r) = Some [taskA, taskB])"
proof -
  have s: "stored (store_with [taskA, taskB]) = Some [taskA, taskB]"
    by (rule stored_store_with)
  have p: "parseInt (hd [js ''abc'']) = None"
    by (simp add: parseInt_abc)
  have n: "[js ''abc''] \<noteq> []"
    by simp
  have h: "parseInt (hd [js ''abc'']) = None
       \<or> (\<exists>n. parseInt (hd [js ''abc'']) = Some n \<and> (n < 1 \<or> int (length [taskA, taskB]) < n))"
    using p by (rule disjI1)
  show ?thesis
    using invalid_number_rejected [OF s n h] s p by blast
qed

section \<open>The priority given to add\<close>

lemma split_plain: "sep \<notin> set v \<Longrightarrow> split v sep = [v]"
  by (induction v) auto

lemma add_priority_of_flag:
  assumes "find (\<lambda>arg. startsWith arg (js ''--priority='')) args = Some (js ''--priority='' @ v)"
    and "0x3D \<notin> set v"
  shows "add_priority args = Some v"
  using assms by (simp add: add_priority_def js_def split_plain at_def)

lemma saveTasks_no_error: "write_error w = None \<Longrightarrow> fst (saveTasks tasks w) = []"
  by (simp add: saveTasks_def)

lemma find_nonempty: "find P xs = Some x \<Longrightarrow> xs \<noteq> []"
  by auto

text \<open>
  C4, amended. \<open>add\<close> looks at the first argument that starts with
  \<open>--priority=\<close>. When the value of that argument has no further \<open>=\<close> and is not
  one of high, medium and low, the command prints the validation error, exits with 1
  and leaves the world as it found it.
\<close>

theorem add_rejects_first_priority:
  assumes "find (\<lambda>arg. startsWith arg (js ''--priority='')) args = Some (js ''--priority='' @ v)"
    and "0x3D \<notin> set v"
    and "\<not> array_includes priorities v"
  shows "\<exists>r. commands_add args w = Some r
           \<and> stdout r = []
           \<and> stderr r = [[0x274C] @ js '' Priority must be: high, medium, or low'']
           \<and> exit_code r = 1 \<and> world r = w"
proof -
  have n: "args \<noteq> []"
    using assms(1) by (rule find_nonempty)
  have "add_priority args = Some v"
    using assms(1,2) by (rule add_priority_of_flag)
  then have "add_priority args = None
           \<or> (\<exists>p. add_priority args = Some p \<and> \<not> array_includes priorities p)"
    using assms(3) by simp
  then show ?thesis
    by (simp add: commands_add_rejects [OF n])
qed

lemma find_bogus:
  "find (\<lambda>arg. startsWith arg (js ''--priority='')) [js ''A'', js ''--priority=bogus'']
     = Some (js ''--priority='' @ js ''bogus'')"
  by (simp add: startsWith_def js_def)

theorem add_rejects_first_priority_witness:
  "find (\<lambda>arg. startsWith arg (js ''--priority='')) [js ''A'', js ''--priority=bogus'']
     = Some (js ''--priority='' @ js ''bogus'')
   \<and> 0x3D \<notin> set (js ''bogus'')
   \<and> \<not> array_includes priorities (js ''bogus'')
   \<and> (\<exists>r. commands_add [js ''A'', js ''--priority=bogus''] (store_with [taskA]) = Some r
         \<and> stdout r = []
         \<and> stderr r = [[0x274C] @ js '' Priority must be: high, medium, or low'']
         \<and> exit_code r = 1 \<and> world r = store_with [taskA])"
proof -
  have b: "0x3D \<notin> set (js ''bogus'')"
    by (simp add: js_def)
  have c: "\<not> array_includes priorities (js ''bogus'')"
    by (simp add: array_includes_def priorities_def js_def)
  show ?thesis
    using add_rejects_first_priority [OF find_bogus b c, of "store_with [taskA]"] find_bogus b c
    by blast
qed

lemma add_priority_first:
  "add_priority [js ''A'', js ''--priority=high'', js ''--priority=bogus''] = Some (js ''high'')"
  by (simp add: add_priority_def startsWith_def js_def at_def)

lemma high_is_priority: "array_includes priorities (js ''high'')"
  by (simp add: array_includes_def priorities_def)

text \<open>The value is what stands between the first \<open>=\<close> and the next one.\<close>

lemma add_priority_cut_at_equals:
  "add_priority [js ''A'', js ''--priority=high=x''] = Some (js ''high'')"
  by (simp add: add_priority_def startsWith_def js_def at_def)

text \<open>
  C4, as stated, fails: only the first \<open>--priority=\<close> argument is looked at, so an
  argument list that contains \<open>--priority=bogus\<close> after \<open>--priority=high\<close> is
  accepted, and the task is added with priority high.
\<close>

theorem add_accepts_later_invalid_priority:
  "array_includes [js ''A'', js ''--priority=high'', js ''--priority=bogus''] (js ''--priority=bogus'')
   \<and> \<not> array_includes priorities (js ''bogus'')
   \<and> (\<exists>r. commands_add [js ''A'', js ''--priority=high'', js ''--priority=bogus''] no_store = Some r
         \<and> exit_code r = 0 \<and> stderr r = []
         \<and> stored (world r)
             = Some [\<lparr>task_id = js ''k1'', title = js ''A'', priority = js ''high'',
                      completed = False, created = js ''2026-01-01T00:00:00.000Z'',
                      completedAt = None\<rparr>]
         \<and> stored no_store = Some [])"
proof -
  have a: "array_includes [js ''A'', js ''--priority=high'', js ''--priority=bogus'']
             (js ''--priority=bogus'')"
    by (simp add: array_includes_def)
  have c: "\<not> array_includes priorities (js ''bogus'')"
    by (simp add: array_includes_def priorities_def js_def)
  have n: "[js ''A'', js ''--priority=high'', js ''--priority=bogus''] \<noteq> []"
    by simp
  have t: "added_task [js ''A'', js ''--priority=high'', js ''--priority=bogus''] (js ''high'') no_store
            = \<lparr>task_id = js ''k1'', title = js ''A'', priority = js ''high'',
                completed = False, created = js ''2026-01-01T00:00:00.000Z'',
                completedAt = None\<rparr>"
    by (simp add: added_task_def add_title_def generateId_def no_store_def startsWith_def js_def)
  have l: "fst (loadTasks no_store) = []"
    by (simp add: loadTasks_def no_store_def)
  show ?thesis
    using a c
    by (simp add: commands_add_accepts [OF n add_priority_first high_is_priority stored_no_store]
        t l stored_saveTasks no_errors_examples stored_no_store saveTasks_no_error)
qed

section \<open>The title given to add\<close>

lemma add_priority_flag_only: "add_priority [js ''--priority=high''] = Some (js ''high'')"
  by (simp add: add_priority_def startsWith_def js_def at_def)

lemma add_title_flag_only: "add_title [js ''--priority=high''] = []"
  by (simp add: add_title_def startsWith_def js_def)

text \<open>
  C2. \<open>add\<close> fails with the usage error when it has no argument at all. The title
  itself is never tested: with the one argument \<open>--priority=high\<close> the title is
  empty, and the command adds a task with the empty title and exits with 0.
\<close>

theorem add_accepts_empty_title:
  "(\<forall>w. commands_add [] w
          = Some \<lparr>stdout = [],
                  stderr = [[0x274C] @ js '' Usage: taskly add <task-title> [--priority=high|medium|low]''],
                  exit_code = 1, world = w\<rparr>)
   \<and> add_title [js ''--priority=high''] = []
   \<and> (\<exists>r. commands_add [js ''--priority=high''] no_store = Some r
         \<and> exit_code r = 0 \<and> stderr r = []
         \<and> stdout r = [[0x2705] @ js '' Task added successfully!'',
                        [0xD83D, 0xDCCB, 0x20, 0x22, 0x22] @ js '' (high priority)'']
         \<and> stored (world r)
             = Some [\<lparr>task_id = js ''k1'', title = [], priority = js ''high'',
                      completed = False, created = js ''2026-01-01T00:00:00.000Z'',
                      completedAt = None\<rparr>]
         \<and> stored no_store = Some [])"
proof -
  have u: "\<forall>w. commands_add [] w
          = Some \<lparr>stdout = [],
                  stderr = [[0x274C] @ js '' Usage: taskly add <task-title> [--priority=high|medium|low]''],
                  exit_code = 1, world = w\<rparr>"
    by (simp add: commands_add_def)
  have n: "[js ''--priority=high''] \<noteq> []"
    by simp
  have t: "added_task [js ''--priority=high''] (js ''high'') no_store
            = \<lparr>task_id = js ''k1'', title = [], priority = js ''high'',
                completed = False, created = js ''2026-01-01T00:00:00.000Z'',
                completedAt = None\<rparr>"
    by (simp add: added_task_def add_title_flag_only generateId_def no_store_def)
  have l: "fst (loadTasks no_store) = []"
    by (simp add: loadTasks_def no_store_def)
  have h: "js '' ('' @ js ''high'' @ js '' priority)'' = js '' (high priority)''"
    by (simp add: js_def)
  show ?thesis
    using u
    by (simp add: commands_add_accepts [OF n add_priority_flag_only high_is_priority stored_no_store]
        t l h stored_saveTasks no_errors_examples stored_no_store saveTasks_no_error
        add_title_flag_only)
qed

section \<open>The flags given to add\<close>

lemma commands_add_eq:
  assumes "args \<noteq> []"
  shows "commands_add args w =
     (case add_priority args of
        None \<Rightarrow>
          Some \<lparr>stdout = [],
                stderr = [[0x274C] @ js '' Priority must be: high, medium, or low''],
                exit_code = 1, world = w\<rparr>
      | Some p \<Rightarrow>
          if \<not> array_includes priorities p
          then Some \<lparr>stdout = [],
                     stderr = [[0x274C] @ js '' Priority must be: high, medium, or low''],
                     exit_code = 1, world = w\<rparr>
          else (case stored w of
                  None \<Rightarrow> None
                | Some tasks \<Rightarrow>
                    Some \<lparr>stdout = [[0x2705] @ js '' Task added successfully!'',
                                     [0xD83D, 0xDCCB, 0x20, 0x22] @ title (added_task args p w) @ [0x22]
                                       @ js '' ('' @ p @ js '' priority)''],
                          stderr = fst (loadTasks w)
                            @ fst (saveTasks (tasks @ [added_task args p w]) w),
                          exit_code = 0,
                          world = snd (saveTasks (tasks @ [added_task args p w]) w)\<rparr>))"
proof (cases "loadTasks w")
  case (Pair errs loaded)
  then show ?thesis
    using assms
    by (simp add: commands_add_def add_priority_def add_title_def added_task_def priorities_def
        stored_def Let_def split: prod.splits option.splits)
qed

lemma commands_add_cong:
  assumes "args \<noteq> []" and "args' \<noteq> []"
    and "add_title args = add_title args'" and "add_priority args = add_priority args'"
  shows "commands_add args w = commands_add args' w"
proof -
  have nt: "added_task args p w = added_task args' p w" for p
    by (simp add: added_task_def assms(3))
  show ?thesis
    unfolding commands_add_eq [OF assms(1)] commands_add_eq [OF assms(2)] assms(4) nt ..
qed

lemma find_skip: "\<not> P f \<Longrightarrow> find P (xs @ f # ys) = find P (xs @ ys)"
  by (induction xs) simp_all

text \<open>
  C9. In \<open>add\<close>, an argument \<open>f\<close> that starts with \<open>--\<close> adds nothing to the
  title. When \<open>f\<close> is not a \<open>--priority=\<close> flag it is ignored altogether: the
  priority is what it is without \<open>f\<close>, and next to other arguments the command does
  what it does without \<open>f\<close>. With no \<open>--priority=\<close> flag the priority is low, and
  the command then succeeds on a store that holds tasks: it exits with 0 and saves
  the sequence with the new task, of priority low and of the title the other
  arguments give, at its end.
\<close>

theorem add_ignores_flags:
  assumes "startsWith f (js ''--'')"
  shows "add_title (xs @ f # ys) = add_title (xs @ ys)
       \<and> (\<not> startsWith f (js ''--priority='') \<longrightarrow>
            add_priority (xs @ f # ys) = add_priority (xs @ ys)
          \<and> (xs @ ys \<noteq> [] \<longrightarrow> commands_add (xs @ f # ys) w = commands_add (xs @ ys) w))
       \<and> (\<forall>args. find (\<lambda>arg. startsWith arg (js ''--priority='')) args = None \<longrightarrow>
            add_priority args = Some (js ''low''))
       \<and> (\<forall>tasks. \<not> startsWith f (js ''--priority='')
              \<and> find (\<lambda>arg. startsWith arg (js ''--priority='')) (xs @ ys) = None
              \<and> stored w = Some tasks \<longrightarrow>
            (\<exists>r. commands_add (xs @ f # ys) w = Some r \<and> exit_code r = 0
               \<and> world r = snd (saveTasks
                    (tasks @ [\<lparr>task_id = generateId w, title = add_title (xs @ ys),
                               priority = js ''low'', completed = False, created = clock w,
                               completedAt = None\<rparr>]) w)))"
proof -
  have t: "add_title (xs @ f # ys) = add_title (xs @ ys)"
    using assms by (simp add: add_title_def)
  have p: "add_priority (xs @ f # ys) = add_priority (xs @ ys)"
    if "\<not> startsWith f (js ''--priority='')"
    using that by (simp add: add_priority_def find_skip)
  have c: "commands_add (xs @ f # ys) w = commands_add (xs @ ys) w"
    if "\<not> startsWith f (js ''--priority='')" and "xs @ ys \<noteq> []"
    using that t p by (intro commands_add_cong) simp_all
  have d: "add_priority args = Some (js ''low'')"
    if "find (\<lambda>arg. startsWith arg (js ''--priority='')) args = None" for args
    using that by (simp add: add_priority_def)
  have l: "array_includes priorities (js ''low'')"
    by (simp add: array_includes_def priorities_def)
  have e: "\<exists>r. commands_add (xs @ f # ys) w = Some r \<and> exit_code r = 0
               \<and> world r = snd (saveTasks
                    (tasks @ [\<lparr>task_id = generateId w, title = add_title (xs @ ys),
                               priority = js ''low'', completed = False, created = clock w,
                               completedAt = None\<rparr>]) w)"
    if "\<not> startsWith f (js ''--priority='')"
      and "find (\<lambda>arg. startsWith arg (js ''--priority='')) (xs @ ys) = None"
      and "stored w = Some tasks" for tasks
  proof -
    have "add_priority (xs @ f # ys) = Some (js ''low'')"
      using p [OF that(1)] d [OF that(2)] by simp
    then show ?thesis
      using that(3) l t by (simp add: commands_add_eq added_task_def)
  qed
  show ?thesis
    using t p c d e by blast
qed


theorem add_ignores_flags_witness:
  "startsWith (js ''--verbose'') (js ''--'')
   \<and> \<not> startsWith (js ''--verbose'') (js ''--priority='')
   \<and> add_title [js ''Buy'', js ''--verbose'', js ''milk''] = js ''Buy milk''
   \<and> add_priority [js ''Buy'', js ''--verbose'', js ''milk''] = Some (js ''low'')
   \<and> commands_add [js ''Buy'', js ''--verbose'', js ''milk''] no_store
       = commands_add [js ''Buy'', js ''milk''] no_store
   \<and> (\<exists>r. commands_add [js ''Buy'', js ''--verbose'', js ''milk''] no_store = Some r
         \<and> exit_code r = 0
         \<and> stored (world r)
             = Some [\<lparr>task_id = js ''k1'', title = js ''Buy milk'', priority = js ''low'',
                      completed = False, created = js ''2026-01-01T00:00:00.000Z'',
                      completedAt = None\<rparr>])"
proof -
  have a: "startsWith (js ''--verbose'') (js ''--'')"
    and b: "\<not> startsWith (js ''--verbose'') (js ''--priority='')"
    by (simp_all add: startsWith_def js_def)
  have f: "find (\<lambda>arg. startsWith arg (js ''--priority='')) ([js ''Buy''] @ [js ''milk'']) = None"
    by (simp add: startsWith_def js_def)
  have n: "[js ''Buy''] @ [js ''milk''] \<noteq> []"
    by simp
  have t: "add_title [js ''Buy'', js ''milk''] = js ''Buy milk''"
    by (simp add: add_title_def startsWith_def js_def)
  have g: "generateId no_store = js ''k1''" "clock no_store = js ''2026-01-01T00:00:00.000Z''"
    by (simp_all add: generateId_def no_store_def)
  note u = add_ignores_flags [OF a, of "[js ''Buy'']" "[js ''milk'']" no_store]
  have "add_title ([js ''Buy''] @ js ''--verbose'' # [js ''milk''])
          = add_title ([js ''Buy''] @ [js ''milk''])"
    using u by blast
  then have 1: "add_title [js ''Buy'', js ''--verbose'', js ''milk''] = js ''Buy milk''"
    using t by simp
  have "add_priority ([js ''Buy''] @ js ''--verbose'' # [js ''milk''])
          = add_priority ([js ''Buy''] @ [js ''milk''])"
    and "add_priority ([js ''Buy''] @ [js ''milk'']) = Some (js ''low'')"
    using u b f by blast+
  then have 2: "add_priority [js ''Buy'', js ''--verbose'', js ''milk''] = Some (js ''low'')"
    by simp
  have "commands_add ([js ''Buy''] @ js ''--verbose'' # [js ''milk'']) no_store
          = commands_add ([js ''Buy''] @ [js ''milk'']) no_store"
    using u b n by blast
  then have 3: "commands_add [js ''Buy'', js ''--verbose'', js ''milk''] no_store
       = commands_add [js ''Buy'', js ''milk''] no_store"
    by simp
  have "\<exists>r. commands_add ([js ''Buy''] @ js ''--verbose'' # [js ''milk'']) no_store = Some r
         \<and> exit_code r = 0
         \<and> world r = snd (saveTasks
              ([] @ [\<lparr>task_id = generateId no_store,
                       title = add_title ([js ''Buy''] @ [js ''milk'']),
                       priority = js ''low'', completed = False, created = clock no_store,
                       completedAt = None\<rparr>]) no_store)"
    using u b f stored_no_store by blast
  then obtain r where r: "commands_add ([js ''Buy''] @ js ''--verbose'' # [js ''milk'']) no_store = Some r"
    "exit_code r = 0"
    "world r = snd (saveTasks
              ([] @ [\<lparr>task_id = generateId no_store,
                       title = add_title ([js ''Buy''] @ [js ''milk'']),
                       priority = js ''low'', completed = False, created = clock no_store,
                       completedAt = None\<rparr>]) no_store)"
    by blast
  have "stored (world r)
             = Some [\<lparr>task_id = js ''k1'', title = js ''Buy milk'', priority = js ''low'',
                      completed = False, created = js ''2026-01-01T00:00:00.000Z'',
                      completedAt = None\<rparr>]"
    unfolding r(3) by (simp add: t g stored_saveTasks no_errors_examples)
  then have 4: "\<exists>r. commands_add [js ''Buy'', js ''--verbose'', js ''milk''] no_store = Some r
         \<and> exit_code r = 0
         \<and> stored (world r)
             = Some [\<lparr>task_id = js ''k1'', title = js ''Buy milk'', priority = js ''low'',
                      completed = False, created = js ''2026-01-01T00:00:00.000Z'',
                      completedAt = None\<rparr>]"
    using r(1,2) by auto
  show ?thesis
    using a b 1 2 3 4 by blast
qed

section \<open>The numbers list prints\<close>

text \<open>
  C1, as stated, fails under a filter: \<open>list\<close> numbers the tasks it prints from 1,
  in the sequence that is left after the filter. In a store that holds a pending
  task and then a completed one, \<open>list --completed\<close> prints the completed task as
  number 1; its position in the stored sequence is 1, so its number there is 2.
\<close>

theorem list_renumbers_filtered:
  "[taskA, taskB] ! 1 = taskB
   \<and> stored (store_with [taskA, taskB]) = Some [taskA, taskB]
   \<and> (\<exists>r. commands_list [js ''--completed''] (store_with [taskA, taskB]) = Some r
         \<and> stdout r = [[0xD83D, 0xDCCB] @ js '' Tasks (completed):'', [],
                        js ''1. '' @ [0x2705] @ js '' '' @ [0xD83D, 0xDFE2] @ js '' B'',
                        [], js ''Total: 1 task(s)'']
         \<and> stdout r ! 2 = formatTask taskB 0
         \<and> stdout r ! 2 \<noteq> formatTask taskB 1)"
proof -
  have s: "stored (store_with [taskA, taskB]) = Some [taskA, taskB]"
    by (rule stored_store_with)
  have f: "list_filter [js ''--completed''] = js ''completed''"
    by (simp add: list_filter_def array_includes_def)
  have g: "filteredTasks (js ''completed'') [taskA, taskB] = [taskB]"
    by (simp add: filteredTasks_def taskA_def taskB_def)
  have l: "fst (loadTasks (store_with [taskA, taskB])) = []"
    by (simp add: loadTasks_store_with)
  have n: "formatTask taskB 0 \<noteq> formatTask taskB 1"
    unfolding formatTask_taskB by (simp add: js_def)
  have c: "commands_list [js ''--completed''] (store_with [taskA, taskB])
          = Some \<lparr>stdout = [[0xD83D, 0xDCCB] @ js '' Tasks ('' @ js ''completed'' @ js ''):'', []]
                     @ map (\<lambda>(index, task). formatTask task index) (enumerate 0 [taskB])
                     @ [[], js ''Total: '' @ decimal (length [taskB]) @ js '' task(s)''],
                  stderr = [], exit_code = 0, world = store_with [taskA, taskB]\<rparr>"
    by (simp add: commands_list_eq [OF s] f g l)
  have o: "[[0xD83D, 0xDCCB] @ js '' Tasks ('' @ js ''completed'' @ js ''):'', []]
             @ map (\<lambda>(index, task). formatTask task index) (enumerate 0 [taskB])
             @ [[], js ''Total: '' @ decimal (length [taskB]) @ js '' task(s)'']
           = [[0xD83D, 0xDCCB] @ js '' Tasks (completed):'', [],
              js ''1. '' @ [0x2705] @ js '' '' @ [0xD83D, 0xDFE2] @ js '' B'',
              [], js ''Total: 1 task(s)'']"
    by (simp add: formatTask_taskB js_def digit_def)
  have "stdout \<lparr>stdout = [[0xD83D, 0xDCCB] @ js '' Tasks (completed):'', [],
              js ''1. '' @ [0x2705] @ js '' '' @ [0xD83D, 0xDFE2] @ js '' B'',
              [], js ''Total: 1 task(s)''],
            stderr = [], exit_code = 0, world = store_with [taskA, taskB]\<rparr> ! 2
          = formatTask taskB 0"
    by (simp add: formatTask_taskB)
  then show ?thesis
    using s n unfolding c o by simp
qed

lemma all_is_not_a_flag: "js ''all'' \<noteq> js ''completed''" "js ''all'' \<noteq> js ''pending''"
  by (simp_all add: js_def)

text \<open>
  C1, amended. The number printed before each task is its position + 1 in the
  sequence that \<open>list\<close> prints, that is, the stored sequence after the filter.
  With neither \<open>--completed\<close> nor \<open>--pending\<close> that sequence is the stored one,
  and the number is the task's position + 1 in the store.
\<close>

theorem list_numbers_the_listing:
  assumes "stored w = Some tasks"
    and "i < length (filteredTasks (list_filter args) tasks)"
  shows "\<exists>r. commands_list args w = Some r
           \<and> stdout r ! (i + 2) = formatTask (filteredTasks (list_filter args) tasks ! i) i
           \<and> startsWith (stdout r ! (i + 2)) (decimal (i + 1) @ js ''. '')
           \<and> (\<not> array_includes args (js ''--completed'')
                \<and> \<not> array_includes args (js ''--pending'')
                \<longrightarrow> filteredTasks (list_filter args) tasks = tasks
                    \<and> stdout r ! (i + 2) = formatTask (tasks ! i) i)"
proof -
  define shown where "shown = filteredTasks (list_filter args) tasks"
  have i: "i < length shown"
    using assms(2) by (simp add: shown_def)
  then have ne: "shown \<noteq> []" "tasks \<noteq> []"
    by (auto simp: shown_def filteredTasks_def split: if_splits)
  define out where "out = [[0xD83D, 0xDCCB] @ js '' Tasks ('' @ list_filter args @ js ''):'', []]
                     @ map (\<lambda>(index, task). formatTask task index) (enumerate 0 shown)
                     @ [[], js ''Total: '' @ decimal (length shown) @ js '' task(s)'']"
  have c: "commands_list args w
             = Some \<lparr>stdout = out, stderr = fst (loadTasks w), exit_code = 0, world = w\<rparr>"
    using ne by (simp add: commands_list_eq [OF assms(1)] shown_def [symmetric] out_def)
  have o: "out ! (i + 2) = formatTask (shown ! i) i"
    using i by (simp add: out_def nth_append nth_enumerate_eq)
  have p: "startsWith (formatTask (shown ! i) i) (decimal (i + 1) @ js ''. '')"
    unfolding formatTask_def Let_def by (simp add: startsWith_def)
  have a: "shown = tasks"
    if "\<not> array_includes args (js ''--completed'')" "\<not> array_includes args (js ''--pending'')"
    using that by (simp add: shown_def list_filter_def filteredTasks_def all_is_not_a_flag)
  show ?thesis
    using c o p a unfolding shown_def [symmetric] by auto
qed


theorem list_numbers_the_listing_witness:
  "stored (store_with [taskA, taskB]) = Some [taskA, taskB]
   \<and> 1 < length (filteredTasks (list_filter []) [taskA, taskB])
   \<and> \<not> array_includes [] (js ''--completed'') \<and> \<not> array_includes [] (js ''--pending'')
   \<and> (\<exists>r. commands_list [] (store_with [taskA, taskB]) = Some r
         \<and> stdout r ! (1 + 2) = formatTask ([taskA, taskB] ! 1) 1
         \<and> startsWith (stdout r ! (1 + 2)) (decimal (1 + 1) @ js ''. ''))"
proof -
  have s: "stored (store_with [taskA, taskB]) = Some [taskA, taskB]"
    by (rule stored_store_with)
  have f: "filteredTasks (list_filter []) [taskA, taskB] = [taskA, taskB]"
    by (simp add: list_filter_def array_includes_def filteredTasks_def all_is_not_a_flag)
  have i: "1 < length (filteredTasks (list_filter []) [taskA, taskB])"
    by (simp add: f)
  have a: "\<not> array_includes [] (js ''--completed'')" "\<not> array_includes [] (js ''--pending'')"
    by (simp_all add: array_includes_def)
  obtain r where r: "commands_list [] (store_with [taskA, taskB]) = Some r"
    "startsWith (stdout r ! (1 + 2)) (decimal (1 + 1) @ js ''. '')"
    "\<not> array_includes [] (js ''--completed'') \<and> \<not> array_includes [] (js ''--pending'')
       \<longrightarrow> filteredTasks (list_filter []) [taskA, taskB] = [taskA, taskB]
           \<and> stdout r ! (1 + 2) = formatTask ([taskA, taskB] ! 1) 1"
    using list_numbers_the_listing [OF s i] by blast
  have "stdout r ! (1 + 2) = formatTask ([taskA, taskB] ! 1) 1"
    using r(3) a by blast
  then show ?thesis
    using s i a r(1,2) by blast
qed

end
